theory Spec2Isabelle
  imports Main
begin

section \<open>JavaScript values and errors\<close>

text \<open>
  The values the build tooling passes around: JSON data (the content of \<^verbatim>\<open>.build-info\<close>,
  loader options, sitemap entries) and opaque references to imported library values
  (loader functions, plugins), which only ever travel through the configuration.
  An object is the list of its own string-keyed properties in insertion order.
  Numbers are the integral ones: the code only ever tests a number for truthiness.
\<close>

datatype jsval =
    JUndefined
  | JNull
  | JBool bool
  | JNum int
  | JStr string
  | JArr "jsval list"
  | JObj "(string \<times> jsval) list"
  | JRef string

type_synonym jsobj = "(string \<times> jsval) list"

text \<open>JavaScript's \<^verbatim>\<open>ToBoolean\<close>, as used by \<^verbatim>\<open>if (x)\<close>, \<^verbatim>\<open>!x\<close> and \<^verbatim>\<open>Boolean(x)\<close>.\<close>

fun truthy :: "jsval \<Rightarrow> bool" where
  "truthy JUndefined = False"
| "truthy JNull = False"
| "truthy (JBool b) = b"
| "truthy (JNum n) = (n \<noteq> 0)"
| "truthy (JStr s) = (s \<noteq> [])"
| "truthy (JArr _) = True"
| "truthy (JObj _) = True"
| "truthy (JRef _) = True"

text \<open>Every \<^verbatim>\<open>throw\<close> of the code and of the library calls it makes is a value.\<close>

datatype js_error =
    Error string
  | TypeError string
  | SyntaxError string
  | SystemError string

text \<open>An optional flag \<^verbatim>\<open>x?: boolean\<close> read in a condition.\<close>

fun flag :: "bool option \<Rightarrow> bool" where
  "flag None = False"
| "flag (Some b) = b"

text \<open>An optional flag written into an object literal: \<^verbatim>\<open>undefined\<close> when absent.\<close>

fun js_of_flag :: "bool option \<Rightarrow> jsval" where
  "js_of_flag None = JUndefined"
| "js_of_flag (Some b) = JBool b"

text \<open>
  Setting a property keeps the position of an existing key and appends a new one;
  the object spread \<^verbatim>\<open>{ ...a, ...b }\<close> sets the properties of \<^verbatim>\<open>b\<close> one by one.
\<close>

fun obj_set :: "string \<Rightarrow> jsval \<Rightarrow> jsobj \<Rightarrow> jsobj" where
  "obj_set k v [] = [(k, v)]"
| "obj_set k v ((k', v') # ps) =
     (if k = k' then (k, v) # ps else (k', v') # obj_set k v ps)"

fun spread :: "jsobj \<Rightarrow> jsobj \<Rightarrow> jsobj" where
  "spread base [] = base"
| "spread base ((k, v) # ps) = spread (obj_set k v base) ps"

section \<open>The file system interface\<close>

text \<open>
  The factory uses the four synchronous calls below, on Node's \<^verbatim>\<open>fs\<close> or on the object
  given as \<^verbatim>\<open>ops.fs\<close>. The interface is a record of functions over the state \<open>'fs\<close> of the
  file systems; a call either throws or returns.
  The second argument of \<open>mkdirSync\<close> is the \<^verbatim>\<open>recursive\<close> option.
\<close>

record 'fs fs_api =
  existsSync :: "string \<Rightarrow> 'fs \<Rightarrow> bool"
  readFileSync :: "string \<Rightarrow> 'fs \<Rightarrow> js_error + string"
  mkdirSync :: "string \<Rightarrow> bool \<Rightarrow> 'fs \<Rightarrow> js_error + 'fs"
  writeFileSync :: "string \<Rightarrow> string \<Rightarrow> 'fs \<Rightarrow> js_error + 'fs"

datatype fs_call =
    ExistsSync string
  | ReadFileSync string
  | MkdirSync string bool
  | WriteFileSync string string

section \<open>Build options\<close>

datatype entryT = EntryStr string | EntryArr "string list"

text \<open>\<^verbatim>\<open>keepBuildInfo?: boolean | BuildInfoT\<close> and \<^verbatim>\<open>workbox?: boolean | object\<close>.\<close>

datatype keepBuildInfoT = KeepBool bool | KeepInfo jsobj

datatype workboxT = WorkboxBool bool | WorkboxObj jsobj

datatype modeT = Development | NoMode | Production

record 'fs OptionsT =
  babelEnv :: string
  babelLoaderOptions :: "jsobj option"
  contextPath :: string
  cssLocalIdent :: "string option"
  dontEmitBuildInfo :: "bool option"
  dontUseProgressPlugin :: "bool option"
  entry :: entryT
  fs :: "'fs fs_api option"
  keepBuildInfo :: "keepBuildInfoT option"
  mode :: modeT
  outputPath :: "string option"
  publicPath :: "string option"
  sitemap :: "string option"
  typescript :: "bool option"
  workbox :: "workboxT option"

text \<open>Truthiness of the two union-typed options and of an optional string.\<close>

fun keep_truthy :: "keepBuildInfoT option \<Rightarrow> bool" where
  "keep_truthy None = False"
| "keep_truthy (Some (KeepBool b)) = b"
| "keep_truthy (Some (KeepInfo _)) = True"

fun workbox_truthy :: "workboxT option \<Rightarrow> bool" where
  "workbox_truthy None = False"
| "workbox_truthy (Some (WorkboxBool b)) = b"
| "workbox_truthy (Some (WorkboxObj _)) = True"

fun str_truthy :: "string option \<Rightarrow> bool" where
  "str_truthy None = False"
| "str_truthy (Some s) = (s \<noteq> [])"

section \<open>The environment of the factory\<close>

text \<open>
  A sitemap source module, as \<^verbatim>\<open>require\<close> returns it: a value, or a factory function,
  given by what calling it yields.
\<close>

datatype sitemap_module = ModuleValue jsval | ModuleFactory "js_error + jsval"

text \<open>
  The library calls of the code are parameters. Both the factory and the build script
  use \<^verbatim>\<open>path.resolve\<close>, \<^verbatim>\<open>JSON.parse\<close> and \<^verbatim>\<open>JSON.stringify\<close> (with its indentation,
  0 for none).
\<close>

record node_env =
  path_resolve :: "string list \<Rightarrow> string"
  JSON_parse :: "string \<Rightarrow> js_error + jsval"
  JSON_stringify :: "jsval \<Rightarrow> nat \<Rightarrow> string"

text \<open>
  The factory also uses Node's \<^verbatim>\<open>fs\<close>, \<^verbatim>\<open>__dirname\<close>, \<^verbatim>\<open>require\<close>, the sitemap library (what
  \<^verbatim>\<open>streamToPromise\<close> settles to for the entries written to the stream),
  \<^verbatim>\<open>forge.random.getBytesSync\<close> and \<^verbatim>\<open>new Date().toISOString()\<close>: the random bytes and
  the time are those this call of the factory gets.
\<close>

record 'fs env = node_env +
  nodeFs :: "'fs fs_api"
  module_dirname :: string
  require :: "string \<Rightarrow> js_error + sitemap_module"
  streamToPromise :: "jsval list \<Rightarrow> js_error + string"
  getBytesSync :: "nat \<Rightarrow> string"
  toISOString_now :: string

text \<open>
  The world the factory runs in: the heap of options objects (an address is an index,
  allocation appends), the state of the file systems, and the log of the file system
  calls made so far. The objects an option holds (loader options, a kept build info,
  workbox options, the array of entries) are kept by value: the factory only ever
  spreads or prints them, it never writes through them.
\<close>

record 'fs world =
  heap :: "'fs OptionsT list"
  fsState :: "'fs"
  fsLog :: "fs_call list"

definition call_existsSync ::
  "'fs fs_api \<Rightarrow> string \<Rightarrow> 'fs world \<Rightarrow> bool \<times> 'fs world" where
  "call_existsSync api p w =
     (existsSync api p (fsState w), w\<lparr>fsLog := fsLog w @ [ExistsSync p]\<rparr>)"

definition call_readFileSync ::
  "'fs fs_api \<Rightarrow> string \<Rightarrow> 'fs world \<Rightarrow> (js_error + string) \<times> 'fs world" where
  "call_readFileSync api p w =
     (readFileSync api p (fsState w), w\<lparr>fsLog := fsLog w @ [ReadFileSync p]\<rparr>)"

definition call_mkdirSync ::
  "'fs fs_api \<Rightarrow> string \<Rightarrow> bool \<Rightarrow> 'fs world \<Rightarrow> (js_error + unit) \<times> 'fs world" where
  "call_mkdirSync api p r w =
     (case mkdirSync api p r (fsState w) of
        Inl e \<Rightarrow> (Inl e, w\<lparr>fsLog := fsLog w @ [MkdirSync p r]\<rparr>)
      | Inr s \<Rightarrow> (Inr (), w\<lparr>fsState := s, fsLog := fsLog w @ [MkdirSync p r]\<rparr>))"

definition call_writeFileSync ::
  "'fs fs_api \<Rightarrow> string \<Rightarrow> string \<Rightarrow> 'fs world \<Rightarrow> (js_error + unit) \<times> 'fs world" where
  "call_writeFileSync api p c w =
     (case writeFileSync api p c (fsState w) of
        Inl e \<Rightarrow> (Inl e, w\<lparr>fsLog := fsLog w @ [WriteFileSync p c]\<rparr>)
      | Inr s \<Rightarrow> (Inr (), w\<lparr>fsState := s, fsLog := fsLog w @ [WriteFileSync p c]\<rparr>))"

section \<open>The Webpack configuration\<close>

text \<open>
  The configuration object the factory returns. Regular expressions are given by their
  source text; a rule is one of the three shapes the factory writes: an asset rule
  (\<^verbatim>\<open>type: 'asset/resource'\<close> with a generator file name), a loader rule, or a rule
  with a \<^verbatim>\<open>use\<close> chain.
\<close>

datatype plugin =
    DefinePlugin jsobj
  | ProgressPlugin
  | InjectManifest jsobj

datatype use_item = UseLoader jsval | UseLoaderOptions string jsobj

datatype rule =
    AssetResource string "string list option" string
  | LoaderRule string "string list" string jsobj
  | UseRule string "use_item list"

record OutputT =
  output_chunkFilename :: string
  output_filename :: string
  output_path :: string
  output_publicPath :: string

record ResolveT =
  resolve_alias :: "(string \<times> string) list"
  resolve_extensions :: "string list"
  resolve_symlinks :: bool

record Configuration =
  config_context :: string
  config_entry :: "string list"
  config_node_dirname :: bool
  config_mode :: modeT
  config_output :: OutputT
  config_plugins :: "plugin list"
  config_resolve :: ResolveT
  config_module_rules :: "rule list"

text \<open>
  The promise chain left pending when the factory returns: the entries written to the
  sitemap stream, and what the \<^verbatim>\<open>then\<close> callback has captured (the address of \<^verbatim>\<open>o\<close>
  and the file system).
\<close>

record 'fs sitemap_job =
  job_entries :: "jsval list"
  job_o :: nat
  job_fs :: "'fs fs_api"

text \<open>
  One run of the factory: the configuration it returns, the value of its local variable
  \<^verbatim>\<open>buildInfo\<close>, and the pending sitemap promise, if any.
\<close>

record 'fs factory_run =
  run_config :: Configuration
  run_buildInfo :: jsval
  run_sitemap :: "'fs sitemap_job option"

section \<open>configFactory\<close>

subsection \<open>Options normalisation (lines 168 to 177)\<close>

text \<open>lodash \<^verbatim>\<open>clone\<close> of a plain object: a new object with the same property values.\<close>

definition clone :: "nat \<Rightarrow> 'fs world \<Rightarrow> nat \<times> 'fs world" where
  "clone a w = (length (heap w), w\<lparr>heap := heap w @ [heap w ! a]\<rparr>)"

text \<open>
  lodash \<^verbatim>\<open>defaults(object, source)\<close> assigns, in place, each property of the source
  that is \<^verbatim>\<open>undefined\<close> in the object.
\<close>

fun default_to :: "'a \<Rightarrow> 'a option \<Rightarrow> 'a option" where
  "default_to d None = Some d"
| "default_to d (Some v) = Some v"

definition default_props :: "'fs OptionsT \<Rightarrow> 'fs OptionsT" where
  "default_props obj = obj
     \<lparr> babelLoaderOptions := default_to [] (babelLoaderOptions obj),
       cssLocalIdent := default_to ''[hash:base64:6]'' (cssLocalIdent obj),
       outputPath := default_to ''build/web-public'' (outputPath obj),
       publicPath := default_to [] (publicPath obj) \<rparr>"

definition defaults :: "nat \<Rightarrow> 'fs world \<Rightarrow> 'fs world" where
  "defaults a w = w\<lparr>heap := (heap w)[a := default_props (heap w ! a)]\<rparr>"

subsection \<open>Sitemap (lines 181 to 198)\<close>

text \<open>
  The synchronous part: load the source module, call it if it is a function, write each
  entry to a new stream. \<^verbatim>\<open>source.forEach\<close> exists for an array only; the stream takes
  every entry, and what the library makes of them shows when the promise settles. The
  result is the list of entries written, or nothing when the option is falsy.
\<close>

definition sitemap_source :: "sitemap_module \<Rightarrow> js_error + jsval" where
  "sitemap_source m = (case m of ModuleValue v \<Rightarrow> Inr v | ModuleFactory r \<Rightarrow> r)"

definition sitemap_start :: "'fs env \<Rightarrow> 'fs OptionsT \<Rightarrow> js_error + jsval list option" where
  "sitemap_start env obj =
     (case sitemap obj of
        None \<Rightarrow> Inr None
      | Some s \<Rightarrow>
          if s = [] then Inr None
          else
            (case require env (path_resolve env [contextPath obj, s]) of
               Inl e \<Rightarrow> Inl e
             | Inr m \<Rightarrow>
                 (case sitemap_source m of
                    Inl e \<Rightarrow> Inl e
                  | Inr (JArr items) \<Rightarrow> Inr (Some items)
                  | Inr _ \<Rightarrow> Inl (TypeError ''source.forEach is not a function''))))"

text \<open>
  The \<^verbatim>\<open>then\<close> callback, run with the XML once the stream has been read:
  \<^verbatim>\<open>path.resolve\<close> throws a TypeError on an \<^verbatim>\<open>undefined\<close> argument.
\<close>

definition sitemap_then ::
  "'fs env \<Rightarrow> 'fs sitemap_job \<Rightarrow> string \<Rightarrow> 'fs world \<Rightarrow> (js_error + unit) \<times> 'fs world" where
  "sitemap_then env job xml w =
     (let obj = heap w ! job_o job in
      case outputPath obj of
        None \<Rightarrow> (Inl (TypeError ''path argument must be of type string''), w)
      | Some out \<Rightarrow>
          let outUrl = path_resolve env [contextPath obj, out];
              (ex, w1) = call_existsSync (job_fs job) outUrl w
          in (case (if \<not> ex then call_mkdirSync (job_fs job) outUrl False w1
                    else (Inr (), w1)) of
                (Inl e, w2) \<Rightarrow> (Inl e, w2)
              | (Inr u, w2) \<Rightarrow>
                  call_writeFileSync (job_fs job)
                    (path_resolve env [contextPath obj, out, ''sitemap.xml'']) xml w2))"

text \<open>The pending promise settles: a rejection is left unhandled, the XML goes to the callback.\<close>

definition sitemap_settle ::
  "'fs env \<Rightarrow> 'fs sitemap_job \<Rightarrow> 'fs world \<Rightarrow> (js_error + unit) \<times> 'fs world" where
  "sitemap_settle env job w =
     (case streamToPromise env (job_entries job) of
        Inl e \<Rightarrow> (Inl e, w)
      | Inr xml \<Rightarrow> sitemap_then env job xml w)"

subsection \<open>Build info (lines 205 to 247)\<close>

fun js_of_keep :: "keepBuildInfoT option \<Rightarrow> jsval" where
  "js_of_keep None = JUndefined"
| "js_of_keep (Some (KeepBool b)) = JBool b"
| "js_of_keep (Some (KeepInfo info)) = JObj info"

text \<open>
  Lines 208 to 218: the value of \<^verbatim>\<open>buildInfo\<close> before the fallback, \<^verbatim>\<open>undefined\<close> when
  nothing was assigned.
\<close>

definition load_buildInfo ::
  "'fs env \<Rightarrow> 'fs fs_api \<Rightarrow> 'fs OptionsT \<Rightarrow> string \<Rightarrow> 'fs world
     \<Rightarrow> (js_error + jsval) \<times> 'fs world" where
  "load_buildInfo env api obj buildInfoUrl w =
     (if keep_truthy (keepBuildInfo obj) then
        if keepBuildInfo obj = Some (KeepBool True) then
          let (ex, w1) = call_existsSync api buildInfoUrl w in
          if ex then
            (case call_readFileSync api buildInfoUrl w1 of
               (Inl e, w2) \<Rightarrow> (Inl e, w2)
             | (Inr text, w2) \<Rightarrow>
                 (case JSON_parse env text of
                    Inl e \<Rightarrow> (Inl e, w2)
                  | Inr v \<Rightarrow> (Inr v, w2)))
          else (Inr JUndefined, w1)
        else (Inr (js_of_keep (keepBuildInfo obj)), w)
      else (Inr JUndefined, w))"

text \<open>Lines 223 to 235: the object generated when nothing was loaded.\<close>

definition fresh_buildInfo :: "'fs env \<Rightarrow> 'fs OptionsT \<Rightarrow> jsval" where
  "fresh_buildInfo env obj = JObj
     [ (''key'', JStr (getBytesSync env 32)),
       (''publicPath'', (case publicPath obj of None \<Rightarrow> JUndefined | Some p \<Rightarrow> JStr p)),
       (''useServiceWorker'', JBool (workbox_truthy (workbox obj))),
       (''timestamp'', JStr (toISOString_now env)) ]"

text \<open>Lines 241 to 247.\<close>

definition emit_buildInfo ::
  "'fs env \<Rightarrow> 'fs fs_api \<Rightarrow> 'fs OptionsT \<Rightarrow> string \<Rightarrow> jsval \<Rightarrow> 'fs world
     \<Rightarrow> (js_error + unit) \<times> 'fs world" where
  "emit_buildInfo env api obj buildInfoUrl buildInfo w =
     (if \<not> flag (dontEmitBuildInfo obj) then
        (case call_mkdirSync api (contextPath obj) True w of
           (Inl e, w1) \<Rightarrow> (Inl e, w1)
         | (Inr _, w1) \<Rightarrow>
             call_writeFileSync api buildInfoUrl (JSON_stringify env buildInfo 0) w1)
      else (Inr (), w))"

subsection \<open>Entry points and plugins (lines 250 to 271)\<close>

definition entry_points :: "'fs OptionsT \<Rightarrow> string list" where
  "entry_points obj =
     [''core-js/stable'', ''regenerator-runtime/runtime'', ''nodelist-foreach-polyfill'']
     @ (case entry obj of EntryArr es \<Rightarrow> es | EntryStr e \<Rightarrow> [e])"

text \<open>Line 265: a truthy \<^verbatim>\<open>o.workbox\<close> that is not an object is replaced, in \<^verbatim>\<open>o\<close>, by \<^verbatim>\<open>{}\<close>.\<close>

definition rewrite_workbox :: "nat \<Rightarrow> 'fs world \<Rightarrow> 'fs world" where
  "rewrite_workbox a w =
     (case workbox (heap w ! a) of
        Some (WorkboxBool True) \<Rightarrow>
          w\<lparr>heap := (heap w)[a := (heap w ! a)\<lparr>workbox := Some (WorkboxObj [])\<rparr>]\<rparr>
      | _ \<Rightarrow> w)"

text \<open>Lines 266 to 270, for the object \<^verbatim>\<open>o.workbox\<close> holds after line 265.\<close>

definition injectManifest :: "'fs env \<Rightarrow> jsobj \<Rightarrow> plugin" where
  "injectManifest env wb = InjectManifest
     (obj_set ''swDest'' (JStr ''__service-worker.js'')
        (spread [(''swSrc'', JStr (path_resolve env [module_dirname env, ''../workbox/default.js'']))]
           wb))"

definition workbox_plugins :: "'fs env \<Rightarrow> workboxT option \<Rightarrow> plugin list" where
  "workbox_plugins env wb =
     (case wb of
        Some (WorkboxObj obj) \<Rightarrow> [injectManifest env obj]
      | _ \<Rightarrow> [])"

subsection \<open>The returned object (lines 273 to 381)\<close>

text \<open>A template literal prints \<^verbatim>\<open>undefined\<close> for an absent string.\<close>

fun template_str :: "string option \<Rightarrow> string" where
  "template_str None = ''undefined''"
| "template_str (Some s) = s"

fun js_of_str :: "string option \<Rightarrow> jsval" where
  "js_of_str None = JUndefined"
| "js_of_str (Some s) = JStr s"

fun spread_opt :: "jsobj \<Rightarrow> jsobj option \<Rightarrow> jsobj" where
  "spread_opt base None = base"
| "spread_opt base (Some ext) = spread base ext"

definition babel_options :: "'fs OptionsT \<Rightarrow> 'fs OptionsT \<Rightarrow> jsobj" where
  "babel_options ops obj = spread_opt
     [ (''babelrc'', JBool False),
       (''configFile'', JBool False),
       (''envName'', JStr (babelEnv obj)),
       (''presets'', JArr [JArr [JStr ''@dr.pogodin/react-utils/config/babel/webpack'',
                                JObj [(''typescript'', js_of_flag (typescript ops))]]]) ]
     (babelLoaderOptions obj)"

text \<open>
  The source text of the regular expressions of the rules; \<open>bs\<close> is the backslash.
\<close>

definition bs :: char where
  "bs = CHR 0x5C"

definition module_rules :: "'fs OptionsT \<Rightarrow> 'fs OptionsT \<Rightarrow> rule list" where
  "module_rules ops obj =
     [ AssetResource (bs # ''.(eot|otf|svg|ttf|woff2?)$'')
         (Some [''node_modules'',
                ''src[/'' @ [bs, bs] @ '']assets[/'' @ [bs, bs] @ '']fonts''])
         ''fonts/[contenthash][ext][query]'',
       LoaderRule
         (if flag (typescript ops) then bs # ''.((j|t)sx?|svg)$'' else bs # ''.(jsx?|svg)$'')
         [''node_modules''] ''babel-loader'' (babel_options ops obj),
       AssetResource (bs # ''.(gif|jpe?g|png)$'') None ''images/[contenthash][ext][query]'',
       UseRule (bs # ''.scss$'')
         [ UseLoader (JRef ''MiniCssExtractPlugin.loader''),
           UseLoaderOptions ''css-loader''
             [(''modules'', JObj [ (''getLocalIdent'', JRef ''getLocalIdent''),
                                  (''localIdentName'', js_of_str (cssLocalIdent obj)),
                                  (''namedExport'', JBool False) ])],
           UseLoaderOptions ''postcss-loader''
             [(''postcssOptions'', JObj [(''plugins'', JArr [JRef ''autoprefixer''])])],
           UseLoader (JStr ''resolve-url-loader''),
           UseLoaderOptions ''sass-loader'' [(''sourceMap'', JBool True)] ],
       UseRule (bs # ''.css$'')
         [ UseLoader (JRef ''MiniCssExtractPlugin.loader''),
           UseLoader (JStr ''css-loader'') ] ]"

definition config_object ::
  "'fs env \<Rightarrow> 'fs OptionsT \<Rightarrow> 'fs OptionsT \<Rightarrow> string \<Rightarrow> string list \<Rightarrow> plugin list
     \<Rightarrow> Configuration" where
  "config_object env ops obj out entries plugins =
     \<lparr> config_context = contextPath obj,
       config_entry = entries,
       config_node_dirname = True,
       config_mode = mode obj,
       config_output =
         \<lparr> output_chunkFilename = ''[contenthash].js'',
           output_filename = ''[contenthash].js'',
           output_path = path_resolve env [module_dirname env, contextPath obj, out],
           output_publicPath = template_str (publicPath obj) @ ''/'' \<rparr>,
       config_plugins = plugins,
       config_resolve =
         \<lparr> resolve_alias =
             [ (''assets'', path_resolve env [contextPath obj, ''src/assets'']),
               (''components'', path_resolve env [contextPath obj, ''src/shared/components'']),
               (''fonts'', path_resolve env [contextPath obj, ''src/assets/fonts'']),
               (''styles'', path_resolve env [contextPath obj, ''src/styles'']) ],
           resolve_extensions = [''.ts'', ''.tsx'', ''.js'', ''.jsx'', ''.json'', ''.scss''],
           resolve_symlinks = False \<rparr>,
       config_module_rules = module_rules ops obj \<rparr>"

subsection \<open>The factory\<close>

text \<open>
  \<open>ops\<close> is the address of the caller's options object; \<open>a\<close> below is the address of
  \<^verbatim>\<open>o\<close>, its clone. Every read of \<^verbatim>\<open>ops.x\<close> and \<^verbatim>\<open>o.x\<close> is a read of the heap at the point
  where the code makes it. An error is a \<^verbatim>\<open>throw\<close> out of the factory, with the world as
  it is then.
\<close>

definition configFactory_run ::
  "'fs env \<Rightarrow> nat \<Rightarrow> 'fs world \<Rightarrow> (js_error + 'fs factory_run) \<times> 'fs world" where
  "configFactory_run env ops w0 =
     (if length (heap w0) \<le> ops then (Inl (TypeError ''ops is not an object''), w0)
      else
        let (a, w1) = clone ops w0;
            w2 = defaults a w1;
            api = (case fs (heap w2 ! ops) of Some f \<Rightarrow> f | None \<Rightarrow> nodeFs env)
        in
        case sitemap_start env (heap w2 ! a) of
          Inl e \<Rightarrow> (Inl e, w2)
        | Inr started \<Rightarrow>
            let buildInfoUrl = path_resolve env [contextPath (heap w2 ! a), ''.build-info''] in
            (case load_buildInfo env api (heap w2 ! a) buildInfoUrl w2 of
               (Inl e, w3) \<Rightarrow> (Inl e, w3)
             | (Inr loaded, w3) \<Rightarrow>
                 let buildInfo =
                       (if \<not> truthy loaded then fresh_buildInfo env (heap w3 ! a) else loaded)
                 in
                 (case emit_buildInfo env api (heap w3 ! a) buildInfoUrl buildInfo w3 of
                    (Inl e, w4) \<Rightarrow> (Inl e, w4)
                  | (Inr u, w4) \<Rightarrow>
                      let entries = entry_points (heap w4 ! a);
                          plugins =
                            [DefinePlugin [(''BUILD_INFO'', JStr (JSON_stringify env buildInfo 0))]]
                            @ (if \<not> flag (dontUseProgressPlugin (heap w4 ! ops))
                               then [ProgressPlugin] else []);
                          w5 = rewrite_workbox a w4;
                          plugins' = plugins @ workbox_plugins env (workbox (heap w5 ! a))
                      in
                      (case outputPath (heap w5 ! a) of
                         None \<Rightarrow> (Inl (TypeError ''path argument must be of type string''), w5)
                       | Some out \<Rightarrow>
                           (Inr \<lparr> run_config =
                                    config_object env (heap w5 ! ops) (heap w5 ! a) out
                                      entries plugins',
                                  run_buildInfo = buildInfo,
                                  run_sitemap =
                                    map_option
                                      (\<lambda>items. \<lparr> job_entries = items, job_o = a, job_fs = api \<rparr>)
                                      started \<rparr>,
                            w5)))))"

text \<open>What the caller gets: the configuration, or the error thrown.\<close>

definition configFactory ::
  "'fs env \<Rightarrow> nat \<Rightarrow> 'fs world \<Rightarrow> (js_error + Configuration) \<times> 'fs world" where
  "configFactory env ops w =
     (case configFactory_run env ops w of
        (Inl e, w') \<Rightarrow> (Inl e, w')
      | (Inr r, w') \<Rightarrow> (Inr (run_config r), w'))"

section \<open>The build script\<close>

text \<open>
  The options \<^verbatim>\<open>program.opts()\<close> returns once the command line is parsed: an option
  without a default is \<^verbatim>\<open>undefined\<close> when it is not given.
\<close>

record cmdLineArgs =
  lib :: bool
  inDir :: string
  outDir :: string
  buildType :: "string option"
  watch :: "bool option"
  webpackConfig :: string
  copyFiles :: "string option"

definition DEVELOPMENT :: string where
  "DEVELOPMENT = ''development''"

definition PRODUCTION :: string where
  "PRODUCTION = ''production''"

text \<open>\<^verbatim>\<open>Object.values(BUILD_TYPES)\<close>.\<close>

definition VALID_BUILD_TYPES :: "string list" where
  "VALID_BUILD_TYPES = [DEVELOPMENT, PRODUCTION]"

text \<open>
  What \<^verbatim>\<open>require\<close> gives for the Webpack configuration: an object, or a function of the
  build type.
\<close>

datatype config_module =
    ConfigObject Configuration
  | ConfigFunction "string \<Rightarrow> js_error + Configuration"

text \<open>The entries of a folder, as \<^verbatim>\<open>readdirSync\<close> with \<^verbatim>\<open>withFileTypes\<close> lists them.\<close>

datatype dirent =
    File string
  | Directory string "dirent list"
  | Other string

text \<open>
  The calls the script makes on the outside: each one is appended to the trace of the
  process, and the environment says, from the trace so far, whether it throws.
\<close>

datatype action =
    RimrafSync string
  | FsMkdirSync string bool
  | Require string
  | Webpack Configuration
  | CompilerWatch
  | CompilerRun
  | CompilerClose
  | ChildProcessExec string string
  | RegExpNew string
  | FsReaddirSync string
  | FsCopyFileSync string string
  | FsWriteFileSync string string

datatype console_call =
    ConsoleError "jsval list"
  | ConsoleWarn "jsval list"
  | ConsoleLog "jsval list"

record process_state =
  exitCode :: "nat option"
  console :: "console_call list"
  actions :: "action list"

record script_env = node_env +
  process_cwd :: string
  require_config :: "string \<Rightarrow> js_error + config_module"
  outcome :: "action list \<Rightarrow> action \<Rightarrow> js_error option"
  regex_match :: "string \<Rightarrow> string \<Rightarrow> bool"
  inDir_entries :: "dirent list"

definition perform ::
  "script_env \<Rightarrow> action \<Rightarrow> process_state \<Rightarrow> (js_error + unit) \<times> process_state" where
  "perform env act p =
     (case outcome env (actions p) act of
        Some e \<Rightarrow> (Inl e, p\<lparr>actions := actions p @ [act]\<rparr>)
      | None \<Rightarrow> (Inr (), p\<lparr>actions := actions p @ [act]\<rparr>))"

text \<open>Sequencing: a throw skips what follows.\<close>

definition and_then ::
  "('s \<Rightarrow> (js_error + 'a) \<times> 's) \<Rightarrow> ('a \<Rightarrow> 's \<Rightarrow> (js_error + 'b) \<times> 's)
     \<Rightarrow> 's \<Rightarrow> (js_error + 'b) \<times> 's" where
  "and_then m f s = (case m s of (Inl e, s') \<Rightarrow> (Inl e, s') | (Inr x, s') \<Rightarrow> f x s')"

subsection \<open>copyFromFolder (lines 187 to 200)\<close>

text \<open>\<^verbatim>\<open>forEach\<close>: the callbacks run in order, and a throw ends the loop.\<close>

fun forEach ::
  "('s \<Rightarrow> (js_error + unit) \<times> 's) list \<Rightarrow> 's \<Rightarrow> (js_error + unit) \<times> 's" where
  "forEach [] s = (Inr (), s)"
| "forEach (m # ms) s =
     (case m s of (Inl e, s') \<Rightarrow> (Inl e, s') | (Inr u, s') \<Rightarrow> forEach ms s')"

text \<open>
  The callback of the loop, for one entry of the folder \<open>from\<close>: a directory is copied by
  the recursive call of \<^verbatim>\<open>copyFromFolder\<close> (which lists it first), a file that matches is
  copied after its target folder is made.
\<close>

primrec copy_item ::
  "script_env \<Rightarrow> string \<Rightarrow> dirent \<Rightarrow> string \<Rightarrow> string \<Rightarrow> process_state
     \<Rightarrow> (js_error + unit) \<times> process_state" where
  "copy_item env regex (Directory name sub) =
     (\<lambda>from to.
        and_then (perform env (FsReaddirSync (from @ ''/'' @ name)))
          (\<lambda>u. forEach
             (map (\<lambda>callback. callback (from @ ''/'' @ name) (to @ ''/'' @ name))
                (map (copy_item env regex) sub))))"
| "copy_item env regex (File name) =
     (\<lambda>from to.
        if regex_match env regex name then
          and_then (perform env (FsMkdirSync to True))
            (\<lambda>u. perform env (FsCopyFileSync (from @ ''/'' @ name) (to @ ''/'' @ name)))
        else (\<lambda>p. (Inr (), p)))"
| "copy_item env regex (Other name) = (\<lambda>from to p. (Inr (), p))"

definition copyFromFolder ::
  "script_env \<Rightarrow> string \<Rightarrow> string \<Rightarrow> string \<Rightarrow> dirent list \<Rightarrow> process_state
     \<Rightarrow> (js_error + unit) \<times> process_state" where
  "copyFromFolder env from to regex items =
     and_then (perform env (FsReaddirSync from))
       (\<lambda>u. forEach (map (\<lambda>item. copy_item env regex item from to) items))"

subsection \<open>handleWebpackCompilationResults (lines 113 to 145)\<close>

record asset =
  asset_name :: string
  asset_size :: nat

record chunkGroup =
  assets :: "asset list"

text \<open>
  What the handler reads of the \<^verbatim>\<open>stats\<close> object: \<^verbatim>\<open>hasErrors()\<close>, \<^verbatim>\<open>hasWarnings()\<close>, the
  \<^verbatim>\<open>errors\<close> and \<^verbatim>\<open>warnings\<close> of \<^verbatim>\<open>toJson()\<close>, \<^verbatim>\<open>toString({ colors: true })\<close>, and the
  \<^verbatim>\<open>namedChunkGroups\<close> of \<^verbatim>\<open>toJson({ all: false, chunkGroups: true })\<close>.
\<close>

record Stats =
  hasErrors :: bool
  hasWarnings :: bool
  info_errors :: jsval
  info_warnings :: jsval
  toString_colors :: string
  namedChunkGroups :: "(string \<times> chunkGroup) list"

text \<open>Reading a property: \<^verbatim>\<open>undefined\<close> when the value has no such property.\<close>

fun get_prop :: "jsval \<Rightarrow> string \<Rightarrow> jsval" where
  "get_prop (JObj ps) k = (case map_of ps k of None \<Rightarrow> JUndefined | Some v \<Rightarrow> v)"
| "get_prop v k = JUndefined"

definition console_error :: "jsval list \<Rightarrow> process_state \<Rightarrow> process_state" where
  "console_error args p = p\<lparr>console := console p @ [ConsoleError args]\<rparr>"

definition console_warn :: "jsval list \<Rightarrow> process_state \<Rightarrow> process_state" where
  "console_warn args p = p\<lparr>console := console p @ [ConsoleWarn args]\<rparr>"

definition console_log :: "jsval list \<Rightarrow> process_state \<Rightarrow> process_state" where
  "console_log args p = p\<lparr>console := console p @ [ConsoleLog args]\<rparr>"

text \<open>Lines 137 to 140: lodash \<^verbatim>\<open>mapValues\<close> keeps the keys and maps each value.\<close>

definition chunks_of :: "(string \<times> chunkGroup) list \<Rightarrow> jsval" where
  "chunks_of groups =
     JObj (map (\<lambda>(name, item). (name, JArr (map (\<lambda>a. JStr (asset_name a)) (assets item)))) groups)"

text \<open>
  The handler closes over \<^verbatim>\<open>buildType\<close> and \<^verbatim>\<open>webpackOutDir\<close>. With \<^verbatim>\<open>stats\<close> undefined,
  \<^verbatim>\<open>stats.toJson()\<close> throws a TypeError.
\<close>

definition handleWebpackCompilationResults ::
  "script_env \<Rightarrow> string option \<Rightarrow> string \<Rightarrow> jsval \<Rightarrow> Stats option \<Rightarrow> process_state
     \<Rightarrow> (js_error + unit) \<times> process_state" where
  "handleWebpackCompilationResults env buildType' webpackOutDir error stats p =
     (let p1 = (if truthy error then
                  let pa = console_error
                             [if truthy (get_prop error ''stack'') then get_prop error ''stack'' else error] p
                  in if truthy (get_prop error ''details'')
                     then console_error [get_prop error ''details''] pa else pa
                else p)
      in
      if truthy error \<and> buildType' \<noteq> Some DEVELOPMENT
      then (Inr (), p1\<lparr>exitCode := Some 1\<rparr>)
      else
        (case stats of
           None \<Rightarrow> (Inl (TypeError ''Cannot read properties of undefined''), p1)
         | Some st \<Rightarrow>
             let p2 = (if hasErrors st
                       then console_error [JStr ''Error defailts:'', info_errors st] p1
                       else p1)
             in
             if hasErrors st \<and> buildType' \<noteq> Some DEVELOPMENT
             then (Inr (), p2\<lparr>exitCode := Some 1\<rparr>)
             else
               let p3 = (if hasWarnings st then console_warn [info_warnings st] p2 else p2);
                   p4 = console_log [JStr (toString_colors st)] p3;
                   chunks = chunks_of (namedChunkGroups st)
               in perform env
                    (FsWriteFileSync (webpackOutDir @ ''/__chunk_groups__.json'')
                       (JSON_stringify env chunks 2))
                    p4))"

subsection \<open>The script (lines 66 to 205)\<close>

definition BABEL_CMD_JS :: "string \<Rightarrow> string \<Rightarrow> string \<Rightarrow> string \<Rightarrow> string" where
  "BABEL_CMD_JS cwd inDir' outDir' buildType' =
     cwd @ ''/node_modules/.bin/babel'' @ '' '' @ inDir' @ '' --out-dir '' @ outDir'
       @ '' --source-maps'' @ (if buildType' = PRODUCTION then '' --minified'' else [])"

text \<open>
  Lines 77 to 94: the folders, for a valid build type \<open>bt\<close>. The handler above runs with
  \<^verbatim>\<open>webpackOutDir\<close>, which is also the output path merged into the configuration.
\<close>

definition resolved_inDir :: "script_env \<Rightarrow> cmdLineArgs \<Rightarrow> string" where
  "resolved_inDir env args = path_resolve env [process_cwd env, inDir args]"

definition resolved_outDir :: "script_env \<Rightarrow> cmdLineArgs \<Rightarrow> string \<Rightarrow> string" where
  "resolved_outDir env args bt =
     path_resolve env [process_cwd env, outDir args] @ (if lib args then ''/'' @ bt else [])"

definition webpackOutDir :: "script_env \<Rightarrow> cmdLineArgs \<Rightarrow> string \<Rightarrow> string" where
  "webpackOutDir env args bt =
     resolved_outDir env args bt @ (if \<not> lib args then ''/web-public'' else [])"

text \<open>
  The synchronous run of the script, from the parsed command line on. The compiler calls
  the handler later; \<^verbatim>\<open>babelBuild()\<close> starts the first Babel run at once (the second one
  follows when the first has ended); the copy starts without waiting for either.
\<close>

definition build_script ::
  "script_env \<Rightarrow> cmdLineArgs \<Rightarrow> process_state \<Rightarrow> (js_error + unit) \<times> process_state" where
  "build_script env args p0 =
     (case buildType args of
        None \<Rightarrow> (Inl (Error ''Invalid build type''), p0)
      | Some bt \<Rightarrow>
          if bt \<notin> set VALID_BUILD_TYPES then (Inl (Error ''Invalid build type''), p0)
          else
            let cwd = process_cwd env;
                inDir' = resolved_inDir env args;
                outDir' = resolved_outDir env args bt;
                configUrl = path_resolve env [cwd, webpackConfig args]
            in
            (and_then (perform env (RimrafSync outDir')) (\<lambda>u.
             and_then (perform env (FsMkdirSync outDir' True)) (\<lambda>u.
             and_then (perform env (Require configUrl)) (\<lambda>u.
             and_then
               (\<lambda>p. case require_config env configUrl of
                       Inl e \<Rightarrow> (Inl e, p)
                     | Inr (ConfigObject c) \<Rightarrow> (Inr c, p)
                     | Inr (ConfigFunction f) \<Rightarrow> (f bt, p)) (\<lambda>c.
             and_then
               (perform env (Webpack
                  (c\<lparr>config_output :=
                       (config_output c)\<lparr>output_path := webpackOutDir env args bt\<rparr>\<rparr>))) (\<lambda>u.
             and_then
               (if flag (watch args) then perform env CompilerWatch
                else and_then (perform env CompilerRun) (\<lambda>u. perform env CompilerClose)) (\<lambda>u.
             and_then
               (perform env
                  (ChildProcessExec (BABEL_CMD_JS cwd inDir' outDir' bt) bt)) (\<lambda>u.
             case copyFiles args of
               None \<Rightarrow> (\<lambda>p. (Inr (), p))
             | Some pattern \<Rightarrow>
                 if pattern = [] then (\<lambda>p. (Inr (), p))
                 else
                   and_then (perform env (RegExpNew pattern)) (\<lambda>u.
                     copyFromFolder env inDir' outDir' pattern (inDir_entries env))))))))))
              p0)"

text \<open>
  A sample run of the script: \<^verbatim>\<open>--build-type\<close> as given, every other option at its
  default; every outside call succeeds; the Webpack configuration is that of the sample
  run of the factory. A sample fatal error of the compiler, and sample stats.
\<close>

definition sample_args :: "string option \<Rightarrow> cmdLineArgs" where
  "sample_args bt =
     \<lparr> lib = False, inDir = ''src'', outDir = ''build'', buildType = bt, watch = None,
       webpackConfig = ''webpack.config.js'', copyFiles = None \<rparr>"

definition sample_error :: jsval where
  "sample_error =
     JObj [ (''message'', JStr ''Invalid configuration object''),
            (''stack'', JStr ''Error: Invalid configuration object'') ]"

definition sample_process :: process_state where
  "sample_process = \<lparr> exitCode = None, console = [], actions = [] \<rparr>"

definition sample_stats :: "bool \<Rightarrow> Stats" where
  "sample_stats failed =
     \<lparr> hasErrors = failed, hasWarnings = False,
       info_errors = (if failed then JArr [JStr ''Module not found''] else JArr []),
       info_warnings = JArr [],
       toString_colors = ''asset main.js'',
       namedChunkGroups =
         [ (''main'', \<lparr> assets = [ \<lparr> asset_name = ''main.js'', asset_size = 1024 \<rparr>,
                                  \<lparr> asset_name = ''main.css'', asset_size = 256 \<rparr> ] \<rparr>) ] \<rparr>"

section \<open>The Modal component\<close>

text \<open>
  What an event handler does with its event: it calls a callback prop, stops the
  propagation of the event, or moves the focus (to the overlay, or, by the loop of lines
  90 to 95, to the last element of the container that takes it, the overlay failing
  that). A handler is the list of what it does, in order; \<open>'cb\<close> is the type of
  callbacks.
\<close>

datatype 'cb effect =
    Invoke 'cb
  | StopPropagation
  | FocusOverlay
  | FocusLastElement

text \<open>
  A rendered \<^verbatim>\<open>div\<close>: its attributes and handlers (absent ones are \<open>None\<close>) and its children;
  the \<^verbatim>\<open>onKeyDown\<close> handler depends on the key of the event.
\<close>

record ('cb, 'node) element =
  aria_label :: "string option"
  aria_modal :: "string option"
  className :: "string option"
  role :: "string option"
  tabIndex :: "int option"
  style :: "jsval option"
  onClick :: "'cb effect list option"
  onKeyDown :: "(string \<Rightarrow> 'cb effect list) option"
  onWheel :: "'cb effect list option"
  onFocus :: "'cb effect list option"
  children :: "'node option"

record theme =
  theme_container :: "string option"
  theme_overlay :: "string option"

record ('cb, 'node) PropsT =
  cancelOnScrolling :: "bool option"
  props_children :: "'node option"
  containerStyle :: "jsval option"
  dontDisableScrolling :: "bool option"
  onCancel :: "'cb option"
  props_theme :: theme

definition empty_div :: "('cb, 'node) element" where
  "empty_div =
     \<lparr> aria_label = None, aria_modal = None, className = None, role = None,
       tabIndex = None, style = None, onClick = None, onKeyDown = None, onWheel = None,
       onFocus = None, children = None \<rparr>"

text \<open>Lines 87 to 101.\<close>

definition focusLast :: "('cb, 'node) element" where
  "focusLast = empty_div \<lparr> tabIndex := Some 0, onFocus := Some [FocusLastElement] \<rparr>"

text \<open>Lines 107 to 130: the overlay and its two handlers.\<close>

definition overlay_onClick :: "('cb, 'node) PropsT \<Rightarrow> 'cb effect list" where
  "overlay_onClick props =
     (case onCancel props of
        Some cancel \<Rightarrow> [Invoke cancel, StopPropagation]
      | None \<Rightarrow> [])"

definition overlay_onKeyDown :: "('cb, 'node) PropsT \<Rightarrow> string \<Rightarrow> 'cb effect list" where
  "overlay_onKeyDown props key =
     (if key = ''Escape'' then
        (case onCancel props of
           Some cancel \<Rightarrow> [Invoke cancel, StopPropagation]
         | None \<Rightarrow> [])
      else [])"

definition overlay :: "('cb, 'node) PropsT \<Rightarrow> ('cb, 'node) element" where
  "overlay props = empty_div
     \<lparr> aria_label := Some ''Cancel'',
       className := theme_overlay (props_theme props),
       role := Some ''button'',
       tabIndex := Some 0,
       onClick := Some (overlay_onClick props),
       onKeyDown := Some (overlay_onKeyDown props) \<rparr>"

text \<open>Lines 144 to 154.\<close>

definition container :: "('cb, 'node) PropsT \<Rightarrow> ('cb, 'node) element" where
  "container props = empty_div
     \<lparr> aria_modal := Some ''true'',
       className := theme_container (props_theme props),
       role := Some ''dialog'',
       style := containerStyle props,
       onClick := Some [StopPropagation],
       onWheel := Some [StopPropagation],
       children := props_children props \<rparr>"

text \<open>Lines 157 to 164.\<close>

definition focusOverlay :: "('cb, 'node) element" where
  "focusOverlay = empty_div \<lparr> tabIndex := Some 0, onFocus := Some [FocusOverlay] \<rparr>"

text \<open>
  The component, for the state \<^verbatim>\<open>portal\<close> of the current render: nothing while no portal
  is set, else the five elements portalled into it.
\<close>

definition BaseModal ::
  "('cb, 'node) PropsT \<Rightarrow> 'portal option \<Rightarrow> (('cb, 'node) element list \<times> 'portal) option" where
  "BaseModal props portal =
     (case portal of
        None \<Rightarrow> None
      | Some p \<Rightarrow>
          Some ([focusLast, overlay props, container props, focusOverlay, focusLast], p))"

text \<open>
  Lines 52 to 59: the effect run once after the first render appends a new element to
  the body and sets it as the portal, which renders the component again.
\<close>

definition mount_portal :: "'portal \<Rightarrow> 'portal list \<Rightarrow> 'portal list \<times> 'portal option" where
  "mount_portal p body = (body @ [p], Some p)"

definition mounted ::
  "('cb, 'node) PropsT \<Rightarrow> 'portal \<Rightarrow> 'portal list
     \<Rightarrow> (('cb, 'node) element list \<times> 'portal) option" where
  "mounted props p body = BaseModal props (snd (mount_portal p body))"

text \<open>An event dispatched on an element runs the handler the element has for it.\<close>

definition click :: "('cb, 'node) element \<Rightarrow> 'cb effect list" where
  "click el = (case onClick el of None \<Rightarrow> [] | Some h \<Rightarrow> h)"

definition keyDown :: "string \<Rightarrow> ('cb, 'node) element \<Rightarrow> 'cb effect list" where
  "keyDown key el = (case onKeyDown el of None \<Rightarrow> [] | Some h \<Rightarrow> h key)"

section \<open>A sample environment\<close>

text \<open>
  The theorems below hold for every environment. The examples run the code in this one:
  an in-memory file system of files and folders under absolute paths, paths joined
  with a slash, and the JSON texts of the values the examples use.
\<close>

datatype mem_node = MemFile string | MemDir

type_synonym memfs = "(string \<times> mem_node) list"

text \<open>
  The folders above an absolute path, from the top down (the root, which always exists,
  is left out): the prefixes of the path that end before a slash.
\<close>

primrec folders_above :: "string \<Rightarrow> string \<Rightarrow> string list" where
  "folders_above acc [] = []"
| "folders_above acc (c # cs) =
     (if c = CHR ''/'' \<and> acc \<noteq> [] then [acc] else []) @ folders_above (acc @ [c]) cs"

definition parent_exists :: "memfs \<Rightarrow> string \<Rightarrow> bool" where
  "parent_exists s p =
     (case folders_above [] p of
        [] \<Rightarrow> True
      | d # ds \<Rightarrow> map_of s (last (d # ds)) = Some MemDir)"

definition is_file :: "memfs \<Rightarrow> string \<Rightarrow> bool" where
  "is_file s p = (case map_of s p of Some (MemFile text) \<Rightarrow> True | _ \<Rightarrow> False)"

definition mem_existsSync :: "string \<Rightarrow> memfs \<Rightarrow> bool" where
  "mem_existsSync p s = (map_of s p \<noteq> None)"

definition mem_readFileSync :: "string \<Rightarrow> memfs \<Rightarrow> js_error + string" where
  "mem_readFileSync p s =
     (case map_of s p of
        None \<Rightarrow> Inl (SystemError ''ENOENT'')
      | Some MemDir \<Rightarrow> Inl (SystemError ''EISDIR'')
      | Some (MemFile text) \<Rightarrow> Inr text)"

text \<open>
  Without \<^verbatim>\<open>recursive\<close>, \<^verbatim>\<open>mkdirSync\<close> needs the parent folder and refuses a path that
  exists; with it, the missing folders above are made too, and an existing folder is
  left as it is.
\<close>

definition mem_mkdirSync :: "string \<Rightarrow> bool \<Rightarrow> memfs \<Rightarrow> js_error + memfs" where
  "mem_mkdirSync p recursive s =
     (case map_of s p of
        Some MemDir \<Rightarrow> if recursive then Inr s else Inl (SystemError ''EEXIST'')
      | Some (MemFile text) \<Rightarrow> Inl (SystemError ''EEXIST'')
      | None \<Rightarrow>
          if recursive then
            if filter (is_file s) (folders_above [] p) \<noteq> [] then Inl (SystemError ''ENOTDIR'')
            else Inr ((p, MemDir)
                      # map (\<lambda>d. (d, MemDir))
                          (filter (\<lambda>d. map_of s d = None) (folders_above [] p))
                      @ s)
          else if parent_exists s p then Inr ((p, MemDir) # s)
          else Inl (SystemError ''ENOENT''))"

definition mem_writeFileSync :: "string \<Rightarrow> string \<Rightarrow> memfs \<Rightarrow> js_error + memfs" where
  "mem_writeFileSync p text s =
     (case map_of s p of
        Some MemDir \<Rightarrow> Inl (SystemError ''EISDIR'')
      | _ \<Rightarrow> if parent_exists s p then Inr ((p, MemFile text) # s)
             else Inl (SystemError ''ENOENT''))"

definition mem_fs :: "memfs fs_api" where
  "mem_fs =
     \<lparr> existsSync = mem_existsSync, readFileSync = mem_readFileSync,
       mkdirSync = mem_mkdirSync, writeFileSync = mem_writeFileSync \<rparr>"

text \<open>
  \<^verbatim>\<open>path.resolve\<close> without the normalisation of dots: a segment that starts with a slash
  starts the path again, any other one is appended after a slash.
\<close>

fun join_paths :: "string \<Rightarrow> string list \<Rightarrow> string" where
  "join_paths acc [] = acc"
| "join_paths acc (p # ps) =
     join_paths (if p \<noteq> [] \<and> hd p = CHR ''/'' then p else acc @ ''/'' @ p) ps"

text \<open>
  The compact JSON text of a value, \<open>None\<close> where \<^verbatim>\<open>JSON.stringify\<close> gives \<^verbatim>\<open>undefined\<close>:
  a property without a text is left out, an array element without one is \<^verbatim>\<open>null\<close>.
  Strings are printed as they are: the examples have no character to escape.
\<close>

fun digits :: "nat \<Rightarrow> string" where
  "digits n =
     (if n < 10 then [''0123456789'' ! n]
      else digits (n div 10) @ [''0123456789'' ! (n mod 10)])"

declare digits.simps [simp del]

definition dq :: char where
  "dq = CHR 0x22"

fun commas :: "string list \<Rightarrow> string" where
  "commas [] = []"
| "commas [t] = t"
| "commas (t # u # ts) = t @ '','' @ commas (u # ts)"

primrec compact_json :: "jsval \<Rightarrow> string option" where
  "compact_json JUndefined = None"
| "compact_json JNull = Some ''null''"
| "compact_json (JBool b) = Some (if b then ''true'' else ''false'')"
| "compact_json (JNum n) = Some (if n < 0 then ''-'' @ digits (nat (- n)) else digits (nat n))"
| "compact_json (JStr s) = Some (dq # s @ [dq])"
| "compact_json (JArr vs) =
     Some (''['' @ commas (map (\<lambda>t. case t of None \<Rightarrow> ''null'' | Some x \<Rightarrow> x)
                            (map compact_json vs)) @ '']'')"
| "compact_json (JObj ps) =
     Some (''{'' @ commas (concat (map (\<lambda>(k, t). case t of None \<Rightarrow> []
                                               | Some x \<Rightarrow> [dq # k @ [dq] @ '':'' @ x])
                                    (map (map_prod id compact_json) ps))) @ ''}'')"
| "compact_json (JRef r) = None"

definition sample_stringify :: "jsval \<Rightarrow> nat \<Rightarrow> string" where
  "sample_stringify v space = (case compact_json v of None \<Rightarrow> ''undefined'' | Some t \<Rightarrow> t)"

text \<open>
  A build info of an earlier build, and \<^verbatim>\<open>JSON.parse\<close> on the three texts the examples
  read: the text of the earlier build info, \<^verbatim>\<open>null\<close>, and the empty text, which is no
  JSON (\<^verbatim>\<open>JSON.parse('')\<close> throws a SyntaxError). What it gives on any other text plays no
  role.
\<close>

definition earlier_buildInfo :: jsobj where
  "earlier_buildInfo =
     [ (''key'', JStr ''0123456789abcdef0123456789abcdef''),
       (''publicPath'', JStr ''/static''),
       (''useServiceWorker'', JBool False),
       (''timestamp'', JStr ''2024-01-01T00:00:00.000Z'') ]"

definition sample_parse :: "string \<Rightarrow> js_error + jsval" where
  "sample_parse text =
     (if text = sample_stringify (JObj earlier_buildInfo) 0 then Inr (JObj earlier_buildInfo)
      else if text = ''null'' then Inr JNull
      else Inl (SyntaxError ''Unexpected end of JSON input''))"

definition sample_sitemap :: "jsval list" where
  "sample_sitemap =
     [ JObj [(''url'', JStr ''/''), (''priority'', JStr ''1.0'')],
       JObj [(''url'', JStr ''/about'')] ]"

definition sample_env :: "memfs env" where
  "sample_env =
     \<lparr> path_resolve = join_paths ''/cwd'',
       JSON_parse = sample_parse,
       JSON_stringify = sample_stringify,
       nodeFs = mem_fs,
       module_dirname = ''/app/node_modules/@dr.pogodin/react-utils/config/webpack'',
       require = (\<lambda>url. if url = ''/app/sitemap.js''
                         then Inr (ModuleFactory (Inr (JArr sample_sitemap)))
                         else Inl (Error ''Cannot find module'')),
       streamToPromise = (\<lambda>items. Inr (''<urlset>'' @ sample_stringify (JArr items) 0 @ ''</urlset>'')),
       getBytesSync = (\<lambda>n. replicate n CHR ''k''),
       toISOString_now = ''2025-06-01T12:00:00.000Z'' \<rparr>"

definition sample_ops :: "memfs OptionsT" where
  "sample_ops =
     \<lparr> babelEnv = ''production'',
       babelLoaderOptions = None,
       contextPath = ''/app'',
       cssLocalIdent = None,
       dontEmitBuildInfo = None,
       dontUseProgressPlugin = None,
       entry = EntryStr ''./src/client'',
       fs = None,
       keepBuildInfo = None,
       mode = Production,
       outputPath = None,
       publicPath = None,
       sitemap = None,
       typescript = Some True,
       workbox = Some (WorkboxBool True) \<rparr>"

definition sample_world :: "memfs OptionsT \<Rightarrow> memfs \<Rightarrow> memfs world" where
  "sample_world ops files = \<lparr> heap = [ops], fsState = files, fsLog = [] \<rparr>"

text \<open>The environment of the sample run of the script.\<close>

definition sample_script_env :: script_env where
  "sample_script_env =
     \<lparr> path_resolve = join_paths ''/cwd'',
       JSON_parse = sample_parse,
       JSON_stringify = sample_stringify,
       process_cwd = ''/app'',
       require_config = (\<lambda>url. case fst (configFactory sample_env 0 (sample_world sample_ops [])) of
                                 Inl e \<Rightarrow> Inl e
                               | Inr c \<Rightarrow> Inr (ConfigObject c)),
       outcome = (\<lambda>done act. None),
       regex_match = (\<lambda>regex name. False),
       inDir_entries = [] \<rparr>"

section \<open>Reading the log of file system calls\<close>



text \<open>
  Sample options that keep the build info of an earlier build, the file that build left,
  and the same file with nothing in it.
\<close>

definition keeping_ops :: "memfs OptionsT" where
  "keeping_ops = sample_ops \<lparr> keepBuildInfo := Some (KeepBool True) \<rparr>"

definition earlier_files :: memfs where
  "earlier_files =
     [ (''/app/.build-info'', MemFile (sample_stringify (JObj earlier_buildInfo) 0)),
       (''/app'', MemDir) ]"

definition empty_file :: memfs where
  "empty_file = [(''/app/.build-info'', MemFile []), (''/app'', MemDir)]"


definition sitemap_ops :: "memfs OptionsT" where
  "sitemap_ops = sample_ops \<lparr> sitemap := Some ''sitemap.js'' \<rparr>"

text \<open>The folders the build script has made when it loads the configuration.\<close>

definition built_files :: memfs where
  "built_files = [(''/app/build'', MemDir), (''/app'', MemDir)]"

definition sample_xml :: string where
  "sample_xml = ''<urlset>'' @ sample_stringify (JArr sample_sitemap) 0 @ ''</urlset>''"

text \<open>
  A step of the script grows the trace: whatever its outcome, the actions made before it
  are still there, followed by its own.
\<close>

definition grows :: "(process_state \<Rightarrow> (js_error + 'a) \<times> process_state) \<Rightarrow> bool" where
  "grows m = (\<forall>p. \<exists>acts. actions (snd (m p)) = actions p @ acts)"

text \<open>Sample props of the Modal: callbacks are named, the content is a text.\<close>

definition sample_props :: "(string, string) PropsT" where
  "sample_props =
     \<lparr> cancelOnScrolling = None, props_children = Some ''Modal Content'',
       containerStyle = None, dontDisableScrolling = None, onCancel = Some ''onCancel'',
       props_theme = \<lparr> theme_container = Some ''container'', theme_overlay = None \<rparr> \<rparr>"

text \<open>The options object of a loader rule (none for the other rules).\<close>

fun rule_options :: "rule \<Rightarrow> jsobj" where
  "rule_options (LoaderRule test exclude loader options) = options"
| "rule_options (AssetResource test include filename) = []"
| "rule_options (UseRule test use) = []"

text \<open>The sample options with the four defaulted options given.\<close>

definition given_ops :: "memfs OptionsT" where
  "given_ops = sample_ops
     \<lparr> babelLoaderOptions := Some [(''babelrc'', JBool True)],
       cssLocalIdent := Some ''[path][name]___[local]'',
       outputPath := Some ''dist'',
       publicPath := Some ''/static'' \<rparr>"

section \<open>Properties of configFactory\<close>

subsection \<open>Auxiliary facts\<close>

text \<open>The file system calls and the build-info steps leave the heap of objects alone.\<close>

lemma heap_call_existsSync: "heap (snd (call_existsSync api p w)) = heap w"
  by (simp add: call_existsSync_def)

lemma heap_call_readFileSync: "heap (snd (call_readFileSync api p w)) = heap w"
  by (simp add: call_readFileSync_def)

lemma heap_call_mkdirSync: "heap (snd (call_mkdirSync api p r w)) = heap w"
  by (simp add: call_mkdirSync_def split: sum.splits)

lemma heap_call_writeFileSync: "heap (snd (call_writeFileSync api p c w)) = heap w"
  by (simp add: call_writeFileSync_def split: sum.splits)

lemma heap_load_buildInfo: "heap (snd (load_buildInfo env api obj url w)) = heap w"
  by (simp add: load_buildInfo_def Let_def call_existsSync_def call_readFileSync_def
      split: prod.splits sum.splits)

lemma heap_emit_buildInfo: "heap (snd (emit_buildInfo env api obj url b w)) = heap w"
  by (simp add: emit_buildInfo_def call_mkdirSync_def call_writeFileSync_def
      split: prod.splits sum.splits)


lemma configFactory_run_InrE:
  assumes run: "configFactory_run env ops w0 = (Inr r, w')"
  obtains started loaded w3 w4 out where
    "ops < length (heap w0)"
    "sitemap_start env (default_props (heap w0 ! ops)) = Inr started"
    "load_buildInfo env (case fs (heap w0 ! ops) of Some f \<Rightarrow> f | None \<Rightarrow> nodeFs env)
        (default_props (heap w0 ! ops))
        (path_resolve env [contextPath (heap w0 ! ops), ''.build-info''])
        (defaults (length (heap w0)) (snd (clone ops w0))) = (Inr loaded, w3)"
    "emit_buildInfo env (case fs (heap w0 ! ops) of Some f \<Rightarrow> f | None \<Rightarrow> nodeFs env)
        (default_props (heap w0 ! ops))
        (path_resolve env [contextPath (heap w0 ! ops), ''.build-info''])
        (if \<not> truthy loaded then fresh_buildInfo env (default_props (heap w0 ! ops)) else loaded)
        w3 = (Inr (), w4)"
    "w' = rewrite_workbox (length (heap w0)) w4"
    "heap w4 = heap w0 @ [default_props (heap w0 ! ops)]"
    "run_buildInfo r = (if \<not> truthy loaded then fresh_buildInfo env (default_props (heap w0 ! ops)) else loaded)"
    "outputPath (heap w' ! length (heap w0)) = Some out"
    "run_config r = config_object env (heap w0 ! ops) (heap w' ! length (heap w0)) out
        (entry_points (heap w0 ! ops))
        ([DefinePlugin [(''BUILD_INFO'', JStr (JSON_stringify env (run_buildInfo r) 0))]]
          @ (if \<not> flag (dontUseProgressPlugin (heap w0 ! ops)) then [ProgressPlugin] else [])
          @ workbox_plugins env (workbox (heap w' ! length (heap w0))))"
    "run_sitemap r = map_option (\<lambda>items. \<lparr> job_entries = items, job_o = length (heap w0),
         job_fs = (case fs (heap w0 ! ops) of Some f \<Rightarrow> f | None \<Rightarrow> nodeFs env) \<rparr>) started"
proof -
  let ?a = "length (heap w0)"
  let ?o = "default_props (heap w0 ! ops)"
  let ?api = "case fs (heap w0 ! ops) of Some f \<Rightarrow> f | None \<Rightarrow> nodeFs env"
  let ?url = "path_resolve env [contextPath (heap w0 ! ops), ''.build-info'']"
  let ?w2 = "defaults ?a (snd (clone ops w0))"
  from run have lt: "ops < length (heap w0)"
    by (auto simp: configFactory_run_def split: if_splits)
  have h2: "heap ?w2 = heap w0 @ [?o]"
    using lt by (simp add: defaults_def clone_def nth_append)
  have ctx: "contextPath ?o = contextPath (heap w0 ! ops)"
    by (simp add: default_props_def)
  from run lt h2 obtain started where
    st: "sitemap_start env ?o = Inr started"
    by (cases "sitemap_start env ?o")
       (auto simp: configFactory_run_def clone_def Let_def nth_append)
  obtain res3 w3 where l3: "load_buildInfo env ?api ?o ?url ?w2 = (res3, w3)"
    by (cases "load_buildInfo env ?api ?o ?url ?w2")
  have h3: "heap w3 = heap w0 @ [?o]"
    using heap_load_buildInfo [of env ?api ?o ?url ?w2] l3 h2 by simp
  from run lt h2 st l3 ctx obtain loaded where ld: "res3 = Inr loaded"
    by (cases res3)
       (auto simp: configFactory_run_def clone_def Let_def nth_append)
  let ?bi = "if \<not> truthy loaded then fresh_buildInfo env ?o else loaded"
  obtain res4 w4 where l4: "emit_buildInfo env ?api ?o ?url ?bi w3 = (res4, w4)"
    by (cases "emit_buildInfo env ?api ?o ?url ?bi w3")
  have h4: "heap w4 = heap w0 @ [?o]"
    using heap_emit_buildInfo [of env ?api ?o ?url ?bi w3] l4 h3 by simp
  from run lt h2 h3 st l3 ld l4 ctx have r4: "res4 = Inr ()"
    by (cases res4)
       (auto simp: configFactory_run_def clone_def Let_def nth_append cong: if_cong)
  let ?w5 = "rewrite_workbox ?a w4"
  have rest: "(case outputPath (heap ?w5 ! ?a) of
       None \<Rightarrow> (Inl (TypeError ''path argument must be of type string''), ?w5)
     | Some out \<Rightarrow>
        (Inr \<lparr> run_config = config_object env (heap ?w5 ! ops) (heap ?w5 ! ?a) out
                  (entry_points (heap w4 ! ?a))
                  (([DefinePlugin [(''BUILD_INFO'', JStr (JSON_stringify env ?bi 0))]]
                    @ (if \<not> flag (dontUseProgressPlugin (heap w4 ! ops))
                       then [ProgressPlugin] else []))
                    @ workbox_plugins env (workbox (heap ?w5 ! ?a))),
                run_buildInfo = ?bi,
                run_sitemap = map_option
                  (\<lambda>items. \<lparr> job_entries = items, job_o = ?a, job_fs = ?api \<rparr>) started \<rparr>,
         ?w5)) = (Inr r, w')"
    using run lt h2 h3 h4 st l3 ld l4 r4 ctx
    by (simp add: configFactory_run_def clone_def Let_def nth_append
        cong: if_cong option.case_cong)
  then obtain out where
    out: "outputPath (heap ?w5 ! ?a) = Some out" and
    w': "w' = ?w5" and
    r: "r = \<lparr> run_config = config_object env (heap ?w5 ! ops) (heap ?w5 ! ?a) out
                  (entry_points (heap w4 ! ?a))
                  (([DefinePlugin [(''BUILD_INFO'', JStr (JSON_stringify env ?bi 0))]]
                    @ (if \<not> flag (dontUseProgressPlugin (heap w4 ! ops))
                       then [ProgressPlugin] else []))
                    @ workbox_plugins env (workbox (heap ?w5 ! ?a))),
                run_buildInfo = ?bi,
                run_sitemap = map_option
                  (\<lambda>items. \<lparr> job_entries = items, job_o = ?a, job_fs = ?api \<rparr>) started \<rparr>"
    by (auto split: option.splits)
  have ops5: "heap ?w5 ! ops = heap w0 ! ops"
    using lt h4 by (simp add: rewrite_workbox_def nth_append split: option.splits workboxT.splits bool.splits)
  have ops4: "heap w4 ! ops = heap w0 ! ops" "heap w4 ! ?a = ?o"
    using lt h4 by (simp_all add: nth_append)
  have ent: "entry_points ?o = entry_points (heap w0 ! ops)"
    by (simp add: entry_points_def default_props_def)
  show ?thesis
    using that [of started loaded w3 w4 out] lt st l3 ld l4 r4 w' h4 out r ops5 ops4 ent
    by simp
qed




lemma heap_load_buildInfo_eq:
  "load_buildInfo env api obj url w = (r, w') \<Longrightarrow> heap w' = heap w"
  using heap_load_buildInfo [of env api obj url w] by simp

lemma heap_emit_buildInfo_eq:
  "emit_buildInfo env api obj url b w = (r, w') \<Longrightarrow> heap w' = heap w"
  using heap_emit_buildInfo [of env api obj url b w] by simp

lemma take_heap_rewrite_workbox:
  "n \<le> a \<Longrightarrow> take n (heap (rewrite_workbox a w)) = take n (heap w)"
  by (simp add: rewrite_workbox_def split: option.splits workboxT.splits bool.splits)

lemma frame_run:
  "take (length (heap w0)) (heap (snd (configFactory_run env ops w0))) = heap w0"
proof (cases "length (heap w0) \<le> ops")
  case True
  then show ?thesis by (simp add: configFactory_run_def)
next
  case False
  let ?a = "length (heap w0)"
  let ?o = "default_props (heap w0 ! ops)"
  let ?api = "case fs (heap w0 ! ops) of Some f \<Rightarrow> f | None \<Rightarrow> nodeFs env"
  let ?url = "path_resolve env [contextPath (heap w0 ! ops), ''.build-info'']"
  let ?w2 = "defaults ?a (snd (clone ops w0))"
  from False have lt: "ops < length (heap w0)" by simp
  have h2: "heap ?w2 = heap w0 @ [?o]"
    using lt by (simp add: defaults_def clone_def nth_append)
  have ctx: "contextPath ?o = contextPath (heap w0 ! ops)"
    by (simp add: default_props_def)
  show ?thesis
  proof (cases "sitemap_start env ?o")
    case (Inl e)
    then show ?thesis
      using lt h2 by (simp add: configFactory_run_def clone_def Let_def nth_append)
  next
    case (Inr started)
    obtain res3 w3 where l3: "load_buildInfo env ?api ?o ?url ?w2 = (res3, w3)"
      by (cases "load_buildInfo env ?api ?o ?url ?w2")
    have h3: "heap w3 = heap w0 @ [?o]"
      using heap_load_buildInfo_eq [OF l3] h2 by simp
    show ?thesis
    proof (cases res3)
      case (Inl e)
      then show ?thesis
        using lt h2 h3 Inr l3 ctx
        by (simp add: configFactory_run_def clone_def Let_def nth_append)
    next
      case ld: (Inr loaded)
      let ?bi = "if \<not> truthy loaded then fresh_buildInfo env ?o else loaded"
      obtain res4 w4 where l4: "emit_buildInfo env ?api ?o ?url ?bi w3 = (res4, w4)"
        by (cases "emit_buildInfo env ?api ?o ?url ?bi w3")
      have h4: "heap w4 = heap w0 @ [?o]"
        using heap_emit_buildInfo_eq [OF l4] h3 by simp
      have h5: "take ?a (heap (rewrite_workbox ?a w4)) = heap w0"
        using h4 by (simp add: take_heap_rewrite_workbox)
      show ?thesis
      proof (cases res4)
        case (Inl e)
        then show ?thesis
          using lt h2 h3 h4 Inr l3 ld l4 ctx
          by (simp add: configFactory_run_def clone_def Let_def nth_append cong: if_cong)
      next
        case r4: (Inr u)
        show ?thesis
          using lt h2 h3 h4 h5 Inr l3 ld l4 r4 ctx
          by (simp add: configFactory_run_def clone_def Let_def nth_append
              cong: if_cong option.case_cong split: option.splits)
      qed
    qed
  qed
qed


lemma default_props_fields:
  "babelLoaderOptions (default_props x) =
     Some (case babelLoaderOptions x of None \<Rightarrow> [] | Some b \<Rightarrow> b)"
  "cssLocalIdent (default_props x) =
     Some (case cssLocalIdent x of None \<Rightarrow> ''[hash:base64:6]'' | Some t \<Rightarrow> t)"
  "outputPath (default_props x) =
     Some (case outputPath x of None \<Rightarrow> ''build/web-public'' | Some t \<Rightarrow> t)"
  "publicPath (default_props x) = Some (case publicPath x of None \<Rightarrow> [] | Some t \<Rightarrow> t)"
  "babelEnv (default_props x) = babelEnv x"
  "contextPath (default_props x) = contextPath x"
  "dontEmitBuildInfo (default_props x) = dontEmitBuildInfo x"
  "keepBuildInfo (default_props x) = keepBuildInfo x"
  "sitemap (default_props x) = sitemap x"
  "workbox (default_props x) = workbox x"
  "entry (default_props x) = entry x"
  "mode (default_props x) = mode x"
  by (simp_all add: default_props_def split: option.splits)

text \<open>
  Reading a spread object: a property of the object spread in wins (the last one, should
  the list repeat a key), any other property is that of the base.
\<close>

lemma map_of_obj_set: "map_of (obj_set k v ps) = (map_of ps)(k \<mapsto> v)"
  by (induction ps) (auto simp: fun_eq_iff)

lemma map_of_spread:
  "map_of (spread base ext) k =
     (case map_of (rev ext) k of Some v \<Rightarrow> Some v | None \<Rightarrow> map_of base k)"
proof (induction ext arbitrary: base)
  case Nil
  then show ?case by simp
next
  case (Cons p ext)
  obtain k' v' where p: "p = (k', v')" by (cases p)
  show ?case
    unfolding p
    by (simp add: Cons.IH map_of_obj_set map_add_def split: option.splits)
qed

lemma rewrite_workbox_fields:
  assumes "a < length (heap w)"
  shows "babelLoaderOptions (heap (rewrite_workbox a w) ! a) = babelLoaderOptions (heap w ! a)"
    and "cssLocalIdent (heap (rewrite_workbox a w) ! a) = cssLocalIdent (heap w ! a)"
    and "outputPath (heap (rewrite_workbox a w) ! a) = outputPath (heap w ! a)"
    and "publicPath (heap (rewrite_workbox a w) ! a) = publicPath (heap w ! a)"
    and "babelEnv (heap (rewrite_workbox a w) ! a) = babelEnv (heap w ! a)"
    and "contextPath (heap (rewrite_workbox a w) ! a) = contextPath (heap w ! a)"
    and "mode (heap (rewrite_workbox a w) ! a) = mode (heap w ! a)"
  using assms
  by (simp_all add: rewrite_workbox_def split: option.splits workboxT.splits bool.splits)


lemmas sample_defs =
  sample_world_def sample_ops_def sample_env_def mem_fs_def sample_parse_def
  sample_stringify_def earlier_buildInfo_def sample_sitemap_def dq_def
  mem_existsSync_def mem_readFileSync_def mem_mkdirSync_def mem_writeFileSync_def
  parent_exists_def is_file_def

lemmas factory_defs =
  configFactory_def configFactory_run_def clone_def defaults_def default_props_def
  sitemap_start_def sitemap_source_def load_buildInfo_def fresh_buildInfo_def
  emit_buildInfo_def entry_points_def rewrite_workbox_def workbox_plugins_def
  injectManifest_def config_object_def call_existsSync_def call_readFileSync_def
  call_mkdirSync_def call_writeFileSync_def Let_def


lemma load_buildInfo_Inr:
  assumes "load_buildInfo env api obj url w = (Inr loaded, w')"
  shows "(\<forall>info. keepBuildInfo obj = Some (KeepInfo info) \<longrightarrow> loaded = JObj info) \<and>
    (keepBuildInfo obj = Some (KeepBool True) \<and> existsSync api url (fsState w) \<longrightarrow>
       (\<exists>text. readFileSync api url (fsState w) = Inr text \<and> JSON_parse env text = Inr loaded)) \<and>
    (keepBuildInfo obj = Some (KeepBool True) \<and> \<not> existsSync api url (fsState w) \<longrightarrow>
       loaded = JUndefined) \<and>
    (keepBuildInfo obj = None \<or> keepBuildInfo obj = Some (KeepBool False) \<longrightarrow>
       loaded = JUndefined)"
  using assms
  by (auto simp: load_buildInfo_def Let_def call_existsSync_def call_readFileSync_def
      split: if_splits sum.splits prod.splits)

lemma fsState_defaults_clone:
  "fsState (defaults a (snd (clone ops w))) = fsState w"
  "fsLog (defaults a (snd (clone ops w))) = fsLog w"
  by (simp_all add: defaults_def clone_def)

lemmas sample_files_defs = keeping_ops_def earlier_files_def empty_file_def






lemma sitemap_start_cases:
  "sitemap_start env obj = Inr started \<Longrightarrow>
     (started \<noteq> None \<longleftrightarrow> str_truthy (sitemap obj)) \<and>
     (\<forall>items. started = Some items \<longrightarrow>
        (\<exists>s m. sitemap obj = Some s \<and>
             require env (path_resolve env [contextPath obj, s]) = Inr m \<and>
             (m = ModuleValue (JArr items) \<or> m = ModuleFactory (Inr (JArr items)))))"
  by (auto simp: sitemap_start_def sitemap_source_def
      split: option.splits if_splits sum.splits jsval.splits sitemap_module.splits)

lemma sitemap_settle_run:
  assumes xml: "streamToPromise env (job_entries job) = Inr xml"
    and out: "outputPath (heap w1 ! job_o job) = Some out"
    and dir: "if existsSync (job_fs job)
                   (path_resolve env [contextPath (heap w1 ! job_o job), out]) (fsState w1)
              then s1 = fsState w1
              else mkdirSync (job_fs job)
                     (path_resolve env [contextPath (heap w1 ! job_o job), out]) False (fsState w1)
                   = Inr s1"
    and wr: "writeFileSync (job_fs job)
                 (path_resolve env [contextPath (heap w1 ! job_o job), out, ''sitemap.xml''])
                 xml s1 = Inr s2"
  shows "sitemap_settle env job w1 =
    (Inr (), w1\<lparr> fsState := s2,
                 fsLog := fsLog w1
                   @ [ExistsSync (path_resolve env [contextPath (heap w1 ! job_o job), out])]
                   @ (if existsSync (job_fs job)
                         (path_resolve env [contextPath (heap w1 ! job_o job), out]) (fsState w1)
                      then []
                      else [MkdirSync
                              (path_resolve env [contextPath (heap w1 ! job_o job), out]) False])
                   @ [WriteFileSync
                        (path_resolve env [contextPath (heap w1 ! job_o job), out, ''sitemap.xml''])
                        xml] \<rparr>)"
  using assms
  by (auto simp: sitemap_settle_def sitemap_then_def Let_def call_existsSync_def
      call_mkdirSync_def call_writeFileSync_def split: if_splits)

subsection \<open>The caller's options object is not mutated\<close>

text \<open>
  Claim C8. Whatever the outcome of a call of the factory (a configuration or a throw),
  every object that was on the heap before the call is as it was, the caller's options
  object among them: the factory writes to the clone only, which is a new object.
\<close>

theorem configFactory_frame:
  "take (length (heap w)) (heap (snd (configFactory env ops w))) = heap w \<and>
   (ops < length (heap w) \<longrightarrow> heap (snd (configFactory env ops w)) ! ops = heap w ! ops)"
proof -
  have s: "snd (configFactory env ops w) = snd (configFactory_run env ops w)"
    by (simp add: configFactory_def split: prod.splits sum.splits)
  have t: "take (length (heap w)) (heap (snd (configFactory env ops w))) = heap w"
    using frame_run [of w env ops] s by simp
  have "heap (snd (configFactory env ops w)) ! ops = heap w ! ops" if "ops < length (heap w)"
  proof -
    have "take (length (heap w)) (heap (snd (configFactory env ops w))) ! ops
            = heap (snd (configFactory env ops w)) ! ops"
      using that by simp
    then show ?thesis using t by simp
  qed
  then show ?thesis using t by simp
qed



text \<open>
  In the sample environment, with \<^verbatim>\<open>workbox: true\<close>: the caller's object still holds
  \<^verbatim>\<open>true\<close>, and the clone holds the empty object written by line 265.
\<close>

theorem configFactory_frame_witness:
  "heap (snd (configFactory sample_env 0 (sample_world sample_ops []))) ! 0 = sample_ops \<and>
   workbox (heap (snd (configFactory sample_env 0 (sample_world sample_ops []))) ! 1)
     = Some (WorkboxObj []) \<and>
   workbox sample_ops = Some (WorkboxBool True)"
proof -
  have "heap (snd (configFactory sample_env 0 (sample_world sample_ops []))) ! 0 = sample_ops"
    using configFactory_frame [of "sample_world sample_ops []" sample_env 0]
    by (simp add: sample_world_def)
  moreover have
    "workbox (heap (snd (configFactory sample_env 0 (sample_world sample_ops []))) ! 1)
       = Some (WorkboxObj [])"
    by (simp add: factory_defs sample_defs)
  ultimately show ?thesis
    by (simp add: sample_ops_def)
qed

subsection \<open>Entry points\<close>

text \<open>
  Claim C10. The entry list of the configuration the factory returns is the three
  polyfills, in the order of the source, followed by the caller's entry points: the
  single entry of a string, the entries of an array in their order.
\<close>

theorem configFactory_entry:
  assumes "configFactory env ops w = (Inr cfg, w')"
  shows "ops < length (heap w) \<and>
    config_entry cfg =
      [''core-js/stable'', ''regenerator-runtime/runtime'', ''nodelist-foreach-polyfill'']
      @ (case entry (heap w ! ops) of EntryStr e \<Rightarrow> [e] | EntryArr es \<Rightarrow> es)"
proof -
  from assms obtain r where run: "configFactory_run env ops w = (Inr r, w')"
    and cfg: "cfg = run_config r"
    by (auto simp: configFactory_def split: prod.splits sum.splits)
  from run show ?thesis
  proof (rule configFactory_run_InrE)
    fix out
    assume "ops < length (heap w)"
      and "run_config r = config_object env (heap w ! ops) (heap w' ! length (heap w)) out
        (entry_points (heap w ! ops))
        ([DefinePlugin [(''BUILD_INFO'', JStr (JSON_stringify env (run_buildInfo r) 0))]]
          @ (if \<not> flag (dontUseProgressPlugin (heap w ! ops)) then [ProgressPlugin] else [])
          @ workbox_plugins env (workbox (heap w' ! length (heap w))))"
    then show ?thesis
      using cfg by (simp add: config_object_def entry_points_def split: entryT.splits)
  qed
qed

theorem configFactory_entry_witness:
  "\<not> isl (fst (configFactory sample_env 0 (sample_world sample_ops []))) \<and>
   config_entry (projr (fst (configFactory sample_env 0 (sample_world sample_ops [])))) =
     [''core-js/stable'', ''regenerator-runtime/runtime'', ''nodelist-foreach-polyfill'',
      ''./src/client'']"
proof -
  obtain cfg w' where run:
    "configFactory sample_env 0 (sample_world sample_ops []) = (Inr cfg, w')"
    by (simp add: factory_defs sample_defs)
  from configFactory_entry [OF run] have
    "config_entry cfg =
       [''core-js/stable'', ''regenerator-runtime/runtime'', ''nodelist-foreach-polyfill'']
       @ (case entry (heap (sample_world sample_ops []) ! 0) of
            EntryStr e \<Rightarrow> [e] | EntryArr es \<Rightarrow> es)"
    by simp
  then show ?thesis
    using run by (simp add: sample_world_def sample_ops_def)
qed



subsection \<open>Defaults\<close>

text \<open>
  Claim C6. The four defaults are used for absent options only. In the configuration
  returned, the output path is resolved from the caller's \<^verbatim>\<open>outputPath\<close>, or from
  \<^verbatim>\<open>build/web-public\<close> when there is none; the public path is the caller's \<^verbatim>\<open>publicPath\<close>,
  or the empty string, followed by a slash; the class name template of the SCSS rule is
  the caller's \<^verbatim>\<open>cssLocalIdent\<close>, or \<^verbatim>\<open>[hash:base64:6]\<close>; the options of the Babel loader
  are the fixed ones with the caller's \<^verbatim>\<open>babelLoaderOptions\<close>, or \<^verbatim>\<open>{}\<close>, spread over them:
  read by key, each property of the caller's object is there with the caller's value,
  and each other key has the fixed value, if any.
\<close>

theorem configFactory_defaults:
  assumes "configFactory env ops w = (Inr cfg, w')"
  shows
    "output_path (config_output cfg) =
       path_resolve env
         [module_dirname env, contextPath (heap w ! ops),
          (case outputPath (heap w ! ops) of None \<Rightarrow> ''build/web-public'' | Some p \<Rightarrow> p)] \<and>
     output_publicPath (config_output cfg) =
       (case publicPath (heap w ! ops) of None \<Rightarrow> [] | Some p \<Rightarrow> p) @ ''/'' \<and>
     config_module_rules cfg ! 3 =
       UseRule (bs # ''.scss$'')
         [ UseLoader (JRef ''MiniCssExtractPlugin.loader''),
           UseLoaderOptions ''css-loader''
             [(''modules'', JObj
                [ (''getLocalIdent'', JRef ''getLocalIdent''),
                  (''localIdentName'', JStr
                     (case cssLocalIdent (heap w ! ops) of
                        None \<Rightarrow> ''[hash:base64:6]'' | Some t \<Rightarrow> t)),
                  (''namedExport'', JBool False) ])],
           UseLoaderOptions ''postcss-loader''
             [(''postcssOptions'', JObj [(''plugins'', JArr [JRef ''autoprefixer''])])],
           UseLoader (JStr ''resolve-url-loader''),
           UseLoaderOptions ''sass-loader'' [(''sourceMap'', JBool True)] ] \<and>
     config_module_rules cfg ! 1 =
       LoaderRule
         (if flag (typescript (heap w ! ops)) then bs # ''.((j|t)sx?|svg)$''
          else bs # ''.(jsx?|svg)$'')
         [''node_modules''] ''babel-loader''
         (spread
            [ (''babelrc'', JBool False),
              (''configFile'', JBool False),
              (''envName'', JStr (babelEnv (heap w ! ops))),
              (''presets'', JArr [JArr [JStr ''@dr.pogodin/react-utils/config/babel/webpack'',
                 JObj [(''typescript'', js_of_flag (typescript (heap w ! ops)))]]]) ]
            (case babelLoaderOptions (heap w ! ops) of None \<Rightarrow> [] | Some b \<Rightarrow> b)) \<and>
     (\<forall>k. map_of (rule_options (config_module_rules cfg ! 1)) k =
        (case map_of (rev (case babelLoaderOptions (heap w ! ops) of
                             None \<Rightarrow> [] | Some b \<Rightarrow> b)) k of
           Some v \<Rightarrow> Some v
         | None \<Rightarrow>
             map_of
               [ (''babelrc'', JBool False),
                 (''configFile'', JBool False),
                 (''envName'', JStr (babelEnv (heap w ! ops))),
                 (''presets'', JArr [JArr [JStr ''@dr.pogodin/react-utils/config/babel/webpack'',
                    JObj [(''typescript'', js_of_flag (typescript (heap w ! ops)))]]]) ] k))"
proof -
  from assms obtain r where run: "configFactory_run env ops w = (Inr r, w')"
    and cfg: "cfg = run_config r"
    by (auto simp: configFactory_def split: prod.splits sum.splits)
  from run show ?thesis
  proof (rule configFactory_run_InrE)
    fix out w4
    let ?a = "length (heap w)"
    assume lt: "ops < length (heap w)"
      and w': "w' = rewrite_workbox ?a w4"
      and h4: "heap w4 = heap w @ [default_props (heap w ! ops)]"
      and out: "outputPath (heap w' ! ?a) = Some out"
      and rc: "run_config r = config_object env (heap w ! ops) (heap w' ! ?a) out
        (entry_points (heap w ! ops))
        ([DefinePlugin [(''BUILD_INFO'', JStr (JSON_stringify env (run_buildInfo r) 0))]]
          @ (if \<not> flag (dontUseProgressPlugin (heap w ! ops)) then [ProgressPlugin] else [])
          @ workbox_plugins env (workbox (heap w' ! ?a)))"
    have a4: "?a < length (heap w4)" "heap w4 ! ?a = default_props (heap w ! ops)"
      using h4 by simp_all
    note f = rewrite_workbox_fields [OF a4(1), folded w', unfolded a4(2) default_props_fields]
    from out f(3) have o: "out = (case outputPath (heap w ! ops) of
        None \<Rightarrow> ''build/web-public'' | Some p \<Rightarrow> p)"
      by simp
    show ?thesis
      unfolding cfg rc
      by (simp add: config_object_def module_rules_def babel_options_def f o map_of_spread)
  qed
qed


text \<open>
  Two runs in the sample environment: no option given, and all four given. The caller's
  \<^verbatim>\<open>babelrc: true\<close> is in the options of the Babel loader, in place of the fixed
  \<^verbatim>\<open>false\<close>, and the caller's template is in the SCSS rule.
\<close>

theorem configFactory_defaults_witness:
  "\<not> isl (fst (configFactory sample_env 0 (sample_world sample_ops []))) \<and>
   output_path (config_output
      (projr (fst (configFactory sample_env 0 (sample_world sample_ops []))))) =
     ''/app/build/web-public'' \<and>
   output_publicPath (config_output
      (projr (fst (configFactory sample_env 0 (sample_world sample_ops []))))) = ''/'' \<and>
   map_of (rule_options (config_module_rules
      (projr (fst (configFactory sample_env 0 (sample_world sample_ops [])))) ! 1))
      ''babelrc'' = Some (JBool False) \<and>
   \<not> isl (fst (configFactory sample_env 0 (sample_world given_ops []))) \<and>
   output_path (config_output
      (projr (fst (configFactory sample_env 0 (sample_world given_ops []))))) =
     ''/app/dist'' \<and>
   output_publicPath (config_output
      (projr (fst (configFactory sample_env 0 (sample_world given_ops []))))) = ''/static/'' \<and>
   map_of (rule_options (config_module_rules
      (projr (fst (configFactory sample_env 0 (sample_world given_ops [])))) ! 1))
      ''babelrc'' = Some (JBool True) \<and>
   map_of (rule_options (config_module_rules
      (projr (fst (configFactory sample_env 0 (sample_world given_ops [])))) ! 1))
      ''envName'' = Some (JStr ''production'') \<and>
   config_module_rules
      (projr (fst (configFactory sample_env 0 (sample_world given_ops [])))) ! 3 =
     UseRule (bs # ''.scss$'')
       [ UseLoader (JRef ''MiniCssExtractPlugin.loader''),
         UseLoaderOptions ''css-loader''
           [(''modules'', JObj
              [ (''getLocalIdent'', JRef ''getLocalIdent''),
                (''localIdentName'', JStr ''[path][name]___[local]''),
                (''namedExport'', JBool False) ])],
         UseLoaderOptions ''postcss-loader''
           [(''postcssOptions'', JObj [(''plugins'', JArr [JRef ''autoprefixer''])])],
         UseLoader (JStr ''resolve-url-loader''),
         UseLoaderOptions ''sass-loader'' [(''sourceMap'', JBool True)] ]"
proof -
  obtain cfg w' where run:
    "configFactory sample_env 0 (sample_world sample_ops []) = (Inr cfg, w')"
    by (simp add: factory_defs sample_defs)
  obtain cfg2 w2 where run2:
    "configFactory sample_env 0 (sample_world given_ops []) = (Inr cfg2, w2)"
    by (simp add: factory_defs sample_defs given_ops_def)
  note t = configFactory_defaults [OF run]
  note t2 = configFactory_defaults [OF run2]
  have 1: "output_path (config_output cfg) = ''/app/build/web-public''"
    using t [THEN conjunct1] by (simp add: sample_defs)
  have 2: "output_publicPath (config_output cfg) = ''/''"
    using t [THEN conjunct2, THEN conjunct1] by (simp add: sample_defs)
  have 3: "map_of (rule_options (config_module_rules cfg ! 1)) ''babelrc'' = Some (JBool False)"
    using t [THEN conjunct2, THEN conjunct2, THEN conjunct2, THEN conjunct2, rule_format,
        of "''babelrc''"]
    by (simp add: sample_world_def sample_ops_def)
  have 4: "output_path (config_output cfg2) = ''/app/dist''"
    using t2 [THEN conjunct1] by (simp add: sample_defs given_ops_def)
  have 5: "output_publicPath (config_output cfg2) = ''/static/''"
    using t2 [THEN conjunct2, THEN conjunct1] by (simp add: sample_defs given_ops_def)
  have 6: "map_of (rule_options (config_module_rules cfg2 ! 1)) ''babelrc'' = Some (JBool True)"
    using t2 [THEN conjunct2, THEN conjunct2, THEN conjunct2, THEN conjunct2, rule_format,
        of "''babelrc''"]
    by (simp add: sample_world_def sample_ops_def given_ops_def)
  have 7: "map_of (rule_options (config_module_rules cfg2 ! 1)) ''envName''
      = Some (JStr ''production'')"
    using t2 [THEN conjunct2, THEN conjunct2, THEN conjunct2, THEN conjunct2, rule_format,
        of "''envName''"]
    by (simp add: sample_world_def sample_ops_def given_ops_def)
  have 8: "config_module_rules cfg2 ! 3 =
     UseRule (bs # ''.scss$'')
       [ UseLoader (JRef ''MiniCssExtractPlugin.loader''),
         UseLoaderOptions ''css-loader''
           [(''modules'', JObj
              [ (''getLocalIdent'', JRef ''getLocalIdent''),
                (''localIdentName'', JStr ''[path][name]___[local]''),
                (''namedExport'', JBool False) ])],
         UseLoaderOptions ''postcss-loader''
           [(''postcssOptions'', JObj [(''plugins'', JArr [JRef ''autoprefixer''])])],
         UseLoader (JStr ''resolve-url-loader''),
         UseLoaderOptions ''sass-loader'' [(''sourceMap'', JBool True)] ]"
    using t2 [THEN conjunct2, THEN conjunct2, THEN conjunct1]
    by (simp add: sample_world_def sample_ops_def given_ops_def)
  from 1 2 3 4 5 6 7 8 show ?thesis
    using run run2 by simp
qed

subsection \<open>The choice of the build info\<close>

text \<open>
  Whenever the factory returns, the build info (the value it defines as \<^verbatim>\<open>BUILD_INFO\<close>)
  is: the object given as \<^verbatim>\<open>keepBuildInfo\<close>, itself; with \<^verbatim>\<open>keepBuildInfo: true\<close> and a
  \<^verbatim>\<open>.build-info\<close> file in the context folder, the value parsed from the text of that file
  when it is truthy; a fresh object with the option absent or false, with no such file,
  and with a file whose text parses to a falsy value.
\<close>

lemma buildInfo_choice:
  assumes "configFactory_run env ops w = (Inr r, w')"
  shows
    "(let obj = heap w ! ops;
          api = (case fs obj of Some f \<Rightarrow> f | None \<Rightarrow> nodeFs env);
          url = path_resolve env [contextPath obj, ''.build-info''];
          fresh = fresh_buildInfo env (default_props obj)
      in
        hd (config_plugins (run_config r)) =
          DefinePlugin [(''BUILD_INFO'', JStr (JSON_stringify env (run_buildInfo r) 0))] \<and>
        (\<forall>info. keepBuildInfo obj = Some (KeepInfo info) \<longrightarrow> run_buildInfo r = JObj info) \<and>
        (keepBuildInfo obj = Some (KeepBool True) \<and> existsSync api url (fsState w) \<longrightarrow>
           (\<exists>text v. readFileSync api url (fsState w) = Inr text \<and>
                     JSON_parse env text = Inr v \<and>
                     run_buildInfo r = (if truthy v then v else fresh))) \<and>
        (keepBuildInfo obj = Some (KeepBool True) \<and> \<not> existsSync api url (fsState w) \<longrightarrow>
           run_buildInfo r = fresh) \<and>
        (keepBuildInfo obj = None \<or> keepBuildInfo obj = Some (KeepBool False) \<longrightarrow>
           run_buildInfo r = fresh))"
proof -
  from assms show ?thesis
  proof (rule configFactory_run_InrE)
    fix loaded w3 out
    let ?obj = "heap w ! ops"
    let ?api = "case fs ?obj of Some f \<Rightarrow> f | None \<Rightarrow> nodeFs env"
    let ?url = "path_resolve env [contextPath ?obj, ''.build-info'']"
    let ?w2 = "defaults (length (heap w)) (snd (clone ops w))"
    assume l3: "load_buildInfo env ?api (default_props ?obj) ?url ?w2 = (Inr loaded, w3)"
      and bi: "run_buildInfo r =
        (if \<not> truthy loaded then fresh_buildInfo env (default_props ?obj) else loaded)"
      and rc: "run_config r = config_object env ?obj (heap w' ! length (heap w)) out
        (entry_points ?obj)
        ([DefinePlugin [(''BUILD_INFO'', JStr (JSON_stringify env (run_buildInfo r) 0))]]
          @ (if \<not> flag (dontUseProgressPlugin ?obj) then [ProgressPlugin] else [])
          @ workbox_plugins env (workbox (heap w' ! length (heap w))))"
    note c = load_buildInfo_Inr [OF l3, unfolded fsState_defaults_clone default_props_fields]
    have p: "hd (config_plugins (run_config r)) =
        DefinePlugin [(''BUILD_INFO'', JStr (JSON_stringify env (run_buildInfo r) 0))]"
      unfolding rc by (simp add: config_object_def)
    from c bi p show ?thesis
      unfolding Let_def by auto
  qed
qed



text \<open>
  Three runs in the sample environment, all with a result: the file of an earlier build
  is loaded; with no file a fresh object is generated; a given object is used.
\<close>

lemma buildInfo_choice_example:
  "run_buildInfo (projr (fst (configFactory_run sample_env 0
      (sample_world keeping_ops earlier_files)))) = JObj earlier_buildInfo \<and>
   run_buildInfo (projr (fst (configFactory_run sample_env 0
      (sample_world keeping_ops [])))) = fresh_buildInfo sample_env (default_props keeping_ops) \<and>
   run_buildInfo (projr (fst (configFactory_run sample_env 0
      (sample_world (sample_ops \<lparr> keepBuildInfo := Some (KeepInfo earlier_buildInfo) \<rparr>) []))))
     = JObj earlier_buildInfo"
proof -
  obtain r1 w1 where run1:
    "configFactory_run sample_env 0 (sample_world keeping_ops earlier_files) = (Inr r1, w1)"
    by (simp add: factory_defs sample_defs sample_files_defs)
  obtain r2 w2 where run2:
    "configFactory_run sample_env 0 (sample_world keeping_ops []) = (Inr r2, w2)"
    by (simp add: factory_defs sample_defs sample_files_defs)
  obtain r3 w3 where run3:
    "configFactory_run sample_env 0
       (sample_world (sample_ops \<lparr> keepBuildInfo := Some (KeepInfo earlier_buildInfo) \<rparr>) [])
     = (Inr r3, w3)"
    by (simp add: factory_defs sample_defs)
  from buildInfo_choice [OF run1] have "run_buildInfo r1 = JObj earlier_buildInfo"
    by (simp add: Let_def sample_defs sample_files_defs)
  moreover from buildInfo_choice [OF run2] have
    "run_buildInfo r2 = fresh_buildInfo sample_env (default_props keeping_ops)"
    by (simp add: Let_def sample_world_def sample_env_def mem_fs_def mem_existsSync_def
        keeping_ops_def sample_ops_def)
  moreover from buildInfo_choice [OF run3] have "run_buildInfo r3 = JObj earlier_buildInfo"
    by (simp add: Let_def sample_world_def)
  ultimately show ?thesis
    using run1 run2 run3 by simp
qed


text \<open>
  Claim C1, where the code falls short of it. With \<^verbatim>\<open>keepBuildInfo: true\<close> and a
  \<^verbatim>\<open>.build-info\<close> file that is empty, nothing can be loaded: \<^verbatim>\<open>JSON.parse\<close> (line 212, not
  guarded) throws, and the factory throws with it. No build info is generated and none
  is written, where the comment of lines 220 and 221 has a new one generated in case
  nothing could be loaded, as the code does when the file is absent.
\<close>

theorem buildInfo_load_failure:
  "fst (configFactory sample_env 0 (sample_world keeping_ops empty_file))
     = Inl (SyntaxError ''Unexpected end of JSON input'') \<and>
   fsLog (snd (configFactory sample_env 0 (sample_world keeping_ops empty_file)))
     = [ExistsSync ''/app/.build-info'', ReadFileSync ''/app/.build-info''] \<and>
   run_buildInfo (projr (fst (configFactory_run sample_env 0 (sample_world keeping_ops []))))
     = fresh_buildInfo sample_env (default_props keeping_ops)"
  by (simp add: factory_defs sample_defs sample_files_defs)

text \<open>
  In general: once the sitemap step is passed, with \<^verbatim>\<open>keepBuildInfo: true\<close> and the file
  there, an error of \<^verbatim>\<open>readFileSync\<close> or of \<^verbatim>\<open>JSON.parse\<close> is the error the factory throws.
\<close>

lemma load_failure_propagates:
  assumes "ops < length (heap w)"
    and "sitemap_start env (default_props (heap w ! ops)) = Inr started"
    and "keepBuildInfo (heap w ! ops) = Some (KeepBool True)"
    and "existsSync (case fs (heap w ! ops) of Some f \<Rightarrow> f | None \<Rightarrow> nodeFs env)
           (path_resolve env [contextPath (heap w ! ops), ''.build-info'']) (fsState w)"
    and "readFileSync (case fs (heap w ! ops) of Some f \<Rightarrow> f | None \<Rightarrow> nodeFs env)
           (path_resolve env [contextPath (heap w ! ops), ''.build-info'']) (fsState w) = Inl e
         \<or> (\<exists>text.
               readFileSync (case fs (heap w ! ops) of Some f \<Rightarrow> f | None \<Rightarrow> nodeFs env)
                 (path_resolve env [contextPath (heap w ! ops), ''.build-info'']) (fsState w)
                 = Inr text \<and>
               JSON_parse env text = Inl e)"
  shows "fst (configFactory env ops w) = Inl e"
proof -
  let ?obj = "heap w ! ops"
  let ?api = "case fs ?obj of Some f \<Rightarrow> f | None \<Rightarrow> nodeFs env"
  let ?url = "path_resolve env [contextPath ?obj, ''.build-info'']"
  let ?w2 = "defaults (length (heap w)) (snd (clone ops w))"
  have h2: "heap ?w2 = heap w @ [default_props ?obj]"
    using assms(1) by (simp add: defaults_def clone_def nth_append)
  have "fst (load_buildInfo env ?api (default_props ?obj) ?url ?w2) = Inl e"
    using assms(3-5)
    by (auto simp: load_buildInfo_def Let_def call_existsSync_def call_readFileSync_def
        default_props_fields fsState_defaults_clone split: prod.splits sum.splits)
  then obtain w3 where "load_buildInfo env ?api (default_props ?obj) ?url ?w2 = (Inl e, w3)"
    by (cases "load_buildInfo env ?api (default_props ?obj) ?url ?w2") auto
  then have "fst (configFactory_run env ops w) = Inl e"
    using assms(1,2) h2
    by (simp add: configFactory_run_def clone_def Let_def nth_append default_props_fields)
  then show ?thesis
    by (cases "configFactory_run env ops w") (auto simp: configFactory_def)
qed

subsection \<open>The build-info file\<close>







subsection \<open>The sitemap\<close>

text \<open>
  Whenever the factory returns, a sitemap promise is pending if and only if the
  \<^verbatim>\<open>sitemap\<close> option is set (a non-empty string). The entries written to the stream are
  the array the source module is, or the array it returns when it is a function. When
  the promise resolves to the XML, the callback checks the resolved output folder,
  makes it (not recursively) if it does not exist, and writes the XML to \<^verbatim>\<open>sitemap.xml\<close>
  in it: if these calls succeed, so does the callback, with exactly these calls.
\<close>

lemma sitemap_emitter:
  fixes env :: "'fs env"
  assumes "configFactory_run env ops w = (Inr r, w')"
  shows
    "(let obj = heap w ! ops;
          out = (case outputPath obj of None \<Rightarrow> ''build/web-public'' | Some p \<Rightarrow> p);
          outUrl = path_resolve env [contextPath obj, out];
          target = path_resolve env [contextPath obj, out, ''sitemap.xml'']
      in
        (run_sitemap r \<noteq> None \<longleftrightarrow> str_truthy (sitemap obj)) \<and>
        (\<forall>job. run_sitemap r = Some job \<longrightarrow>
           job_fs job = (case fs obj of Some f \<Rightarrow> f | None \<Rightarrow> nodeFs env) \<and>
           (\<exists>s m. sitemap obj = Some s \<and>
                require env (path_resolve env [contextPath obj, s]) = Inr m \<and>
                (m = ModuleValue (JArr (job_entries job)) \<or>
                 m = ModuleFactory (Inr (JArr (job_entries job))))) \<and>
           (\<forall>xml w1 s1 s2.
              heap w1 = heap w' \<and>
              streamToPromise env (job_entries job) = Inr xml \<and>
              (if existsSync (job_fs job) outUrl (fsState w1) then s1 = fsState w1
               else mkdirSync (job_fs job) outUrl False (fsState w1) = Inr s1) \<and>
              writeFileSync (job_fs job) target xml s1 = Inr s2 \<longrightarrow>
              sitemap_settle env job w1 =
                (Inr (), w1\<lparr> fsState := s2,
                             fsLog := fsLog w1 @ [ExistsSync outUrl]
                               @ (if existsSync (job_fs job) outUrl (fsState w1) then []
                                  else [MkdirSync outUrl False])
                               @ [WriteFileSync target xml] \<rparr>))))"
proof -
  from assms show ?thesis
  proof (rule configFactory_run_InrE)
    fix started w4 out
    let ?obj = "heap w ! ops"
    let ?a = "length (heap w)"
    let ?api = "case fs ?obj of Some f \<Rightarrow> f | None \<Rightarrow> nodeFs env"
    assume st: "sitemap_start env (default_props ?obj) = Inr started"
      and w': "w' = rewrite_workbox ?a w4"
      and h4: "heap w4 = heap w @ [default_props ?obj]"
      and rs: "run_sitemap r = map_option
          (\<lambda>items. \<lparr> job_entries = items, job_o = ?a, job_fs = ?api \<rparr>) started"
    have a4: "?a < length (heap w4)" "heap w4 ! ?a = default_props ?obj"
      using h4 by simp_all
    note f = rewrite_workbox_fields [OF a4(1), folded w', unfolded a4(2) default_props_fields]
    note c = sitemap_start_cases [OF st, unfolded default_props_fields]
    have 1: "run_sitemap r \<noteq> None \<longleftrightarrow> str_truthy (sitemap ?obj)"
      using c rs by simp
    have 2: "job_fs job = ?api \<and> job_o job = ?a \<and>
        (\<exists>s m. sitemap ?obj = Some s \<and>
                require env (path_resolve env [contextPath ?obj, s]) = Inr m \<and>
                (m = ModuleValue (JArr (job_entries job)) \<or>
                 m = ModuleFactory (Inr (JArr (job_entries job)))))"
      if "run_sitemap r = Some job" for job
      using that c rs by auto
    show ?thesis
      unfolding Let_def
    proof (intro conjI allI impI)
      show "run_sitemap r \<noteq> None \<longleftrightarrow> str_truthy (sitemap ?obj)" by (rule 1)
    next
      fix job assume "run_sitemap r = Some job"
      then show "job_fs job = ?api" using 2 by blast
    next
      fix job assume "run_sitemap r = Some job"
      then show "\<exists>s m. sitemap ?obj = Some s \<and>
                require env (path_resolve env [contextPath ?obj, s]) = Inr m \<and>
                (m = ModuleValue (JArr (job_entries job)) \<or>
                 m = ModuleFactory (Inr (JArr (job_entries job))))"
        using 2 by blast
    next
      fix job xml s1 s2 and w1 :: "'fs world"
      let ?out = "case outputPath ?obj of None \<Rightarrow> ''build/web-public'' | Some p \<Rightarrow> p"
      assume j: "run_sitemap r = Some job"
        and h: "heap w1 = heap w' \<and>
              streamToPromise env (job_entries job) = Inr xml \<and>
              (if existsSync (job_fs job) (path_resolve env [contextPath ?obj, ?out]) (fsState w1)
               then s1 = fsState w1
               else mkdirSync (job_fs job) (path_resolve env [contextPath ?obj, ?out]) False
                      (fsState w1) = Inr s1) \<and>
              writeFileSync (job_fs job)
                (path_resolve env [contextPath ?obj, ?out, ''sitemap.xml'']) xml s1 = Inr s2"
      from j 2 have jo: "job_o job = ?a" by blast
      have o1: "outputPath (heap w1 ! job_o job) = Some ?out"
        and c1: "contextPath (heap w1 ! job_o job) = contextPath ?obj"
        using h jo f by simp_all
      show "sitemap_settle env job w1 =
                (Inr (), w1\<lparr> fsState := s2,
                             fsLog := fsLog w1 @ [ExistsSync (path_resolve env [contextPath ?obj, ?out])]
                               @ (if existsSync (job_fs job) (path_resolve env [contextPath ?obj, ?out]) (fsState w1) then []
                                  else [MkdirSync (path_resolve env [contextPath ?obj, ?out]) False])
                               @ [WriteFileSync (path_resolve env [contextPath ?obj, ?out, ''sitemap.xml'']) xml] \<rparr>)"
        using sitemap_settle_run [of env job xml w1 ?out s1 s2] h o1
        unfolding c1 by simp
    qed
  qed
qed



text \<open>
  In the sample environment: the source module is a factory, the output folder does not
  exist in the folder \<^verbatim>\<open>build\<close>, and the file system ends with \<^verbatim>\<open>sitemap.xml\<close> in the new
  folder.
\<close>

lemma sitemap_emitter_example:
  "run_sitemap (projr (fst (configFactory_run sample_env 0 (sample_world sitemap_ops built_files))))
     \<noteq> None \<and>
   fst (sitemap_settle sample_env
          (the (run_sitemap (projr (fst (configFactory_run sample_env 0
             (sample_world sitemap_ops built_files))))))
          (snd (configFactory_run sample_env 0 (sample_world sitemap_ops built_files)))) = Inr () \<and>
   map_of (fsState (snd (sitemap_settle sample_env
          (the (run_sitemap (projr (fst (configFactory_run sample_env 0
             (sample_world sitemap_ops built_files))))))
          (snd (configFactory_run sample_env 0 (sample_world sitemap_ops built_files))))))
     ''/app/build/web-public/sitemap.xml'' = Some (MemFile sample_xml)"
proof -
  obtain r w' where run:
    "configFactory_run sample_env 0 (sample_world sitemap_ops built_files) = (Inr r, w')"
    by (simp add: factory_defs sample_defs sitemap_ops_def built_files_def)
  have files: "map_of (fsState w') ''/app/build/web-public'' = None"
    "map_of (fsState w') ''/app/build/web-public/sitemap.xml'' = None"
    "map_of (fsState w') ''/app/build'' = Some MemDir"
    using run by (auto simp: factory_defs sample_defs sitemap_ops_def built_files_def)
  note t = sitemap_emitter [OF run, unfolded Let_def]
  from t have "run_sitemap r \<noteq> None"
    by (simp add: sample_world_def sitemap_ops_def sample_ops_def)
  then obtain job where j: "run_sitemap r = Some job" by auto
  from t j have api: "job_fs job = mem_fs"
    by (simp add: sample_world_def sitemap_ops_def sample_ops_def sample_env_def)
  from t j have "\<exists>m. require sample_env ''/app/sitemap.js'' = Inr m \<and>
      (m = ModuleValue (JArr (job_entries job)) \<or> m = ModuleFactory (Inr (JArr (job_entries job))))"
    by (auto simp: sample_world_def sitemap_ops_def sample_ops_def sample_env_def)
  then have entries: "job_entries job = sample_sitemap"
    by (auto simp: sample_env_def)
  let ?s1 = "(''/app/build/web-public'', MemDir) # fsState w'"
  let ?s2 = "(''/app/build/web-public/sitemap.xml'', MemFile sample_xml) # ?s1"
  have p1: "path_resolve sample_env
      [contextPath (heap (sample_world sitemap_ops built_files) ! 0),
       (case outputPath (heap (sample_world sitemap_ops built_files) ! 0) of
          None \<Rightarrow> ''build/web-public'' | Some p \<Rightarrow> p)] = ''/app/build/web-public''"
    and p2: "path_resolve sample_env
      [contextPath (heap (sample_world sitemap_ops built_files) ! 0),
       (case outputPath (heap (sample_world sitemap_ops built_files) ! 0) of
          None \<Rightarrow> ''build/web-public'' | Some p \<Rightarrow> p),
       ''sitemap.xml''] = ''/app/build/web-public/sitemap.xml''"
    by (simp_all add: sample_world_def sitemap_ops_def sample_ops_def sample_env_def)
  note t' = t [THEN conjunct2, rule_format, OF j, THEN conjunct2, THEN conjunct2, rule_format,
      of w' sample_xml ?s1 ?s2, unfolded p1 p2]
  have a1: "streamToPromise sample_env (job_entries job) = Inr sample_xml"
    by (simp add: entries sample_env_def sample_xml_def)
  have a2: "\<not> existsSync (job_fs job) ''/app/build/web-public'' (fsState w')"
    using files by (simp add: api mem_fs_def mem_existsSync_def)
  have a3: "mkdirSync (job_fs job) ''/app/build/web-public'' False (fsState w') = Inr ?s1"
    using files by (simp add: api mem_fs_def mem_mkdirSync_def parent_exists_def)
  have a4: "writeFileSync (job_fs job) ''/app/build/web-public/sitemap.xml'' sample_xml ?s1
      = Inr ?s2"
    using files by (simp add: api mem_fs_def mem_writeFileSync_def parent_exists_def)
  from t' a1 a2 a3 a4 have "sitemap_settle sample_env job w' =
      (Inr (), w'\<lparr> fsState := ?s2,
                   fsLog := fsLog w' @ [ExistsSync ''/app/build/web-public'']
                     @ [MkdirSync ''/app/build/web-public'' False]
                     @ [WriteFileSync ''/app/build/web-public/sitemap.xml'' sample_xml] \<rparr>)"
    by simp
  then show ?thesis
    using run j by simp
qed


text \<open>
  Claim C5, where the code falls short of it. The sample options with a sitemap and the
  default output path \<^verbatim>\<open>build/web-public\<close>, on a file system without the folder \<^verbatim>\<open>build\<close>:
  the factory returns with the sitemap promise pending, but the callback fails, as the
  \<^verbatim>\<open>mkdirSync\<close> of line 192 is not recursive (that of line 244, for the build info, is):
  the output folder is not made and no \<^verbatim>\<open>sitemap.xml\<close> is written.
\<close>

theorem sitemap_parent_folder_missing:
  "run_sitemap (projr (fst (configFactory_run sample_env 0 (sample_world sitemap_ops []))))
     \<noteq> None \<and>
   sitemap_settle sample_env
     (the (run_sitemap (projr (fst (configFactory_run sample_env 0
        (sample_world sitemap_ops []))))))
     (snd (configFactory_run sample_env 0 (sample_world sitemap_ops [])))
   = (Inl (SystemError ''ENOENT''),
      (snd (configFactory_run sample_env 0 (sample_world sitemap_ops [])))
        \<lparr> fsLog :=
            [ MkdirSync ''/app'' True,
              WriteFileSync ''/app/.build-info''
                (sample_stringify (fresh_buildInfo sample_env (default_props sitemap_ops)) 0),
              ExistsSync ''/app/build/web-public'',
              MkdirSync ''/app/build/web-public'' False ] \<rparr>)"
  by (simp add: factory_defs sample_defs sitemap_ops_def sitemap_settle_def sitemap_then_def)

section \<open>Properties of the build script\<close>

subsection \<open>Auxiliary facts\<close>

lemma grows_perform: "grows (perform env act)"
  by (simp add: grows_def perform_def split: option.splits)

lemma grows_return: "grows (\<lambda>p. (r, p))"
  by (simp add: grows_def)

lemma grows_and_then:
  assumes "grows m" and "\<And>x. grows (f x)"
  shows "grows (and_then m f)"
  unfolding grows_def
proof
  fix p
  from assms(1) obtain a1 where a1: "actions (snd (m p)) = actions p @ a1"
    unfolding grows_def by blast
  show "\<exists>acts. actions (snd (and_then m f p)) = actions p @ acts"
  proof (cases "m p")
    case (Pair res p1)
    show ?thesis
    proof (cases res)
      case (Inl e)
      with Pair a1 show ?thesis by (simp add: and_then_def)
    next
      case (Inr x)
      from assms(2) [of x] obtain a2 where "actions (snd (f x p1)) = actions p1 @ a2"
        unfolding grows_def by blast
      with Pair Inr a1 show ?thesis by (simp add: and_then_def)
    qed
  qed
qed

lemma grows_forEach:
  assumes "\<And>m. m \<in> set ms \<Longrightarrow> grows m"
  shows "grows (forEach ms)"
  using assms
proof (induction ms)
  case Nil
  have "forEach [] = (\<lambda>p. (Inr (), p))" by (rule ext) simp
  then show ?case by (simp add: grows_return)
next
  case (Cons m ms)
  have "forEach (m # ms) = and_then m (\<lambda>u. forEach ms)"
    by (rule ext) (simp add: and_then_def split: prod.splits sum.splits)
  then show ?case
    using Cons by (simp add: grows_and_then)
qed

lemma grows_copy_item: "grows (copy_item env regex item from to)"
proof (induction item arbitrary: "from" to)
  case (File name)
  then show ?case
    by (simp add: grows_and_then grows_perform grows_return)
next
  case (Directory name sub)
  then show ?case
    by (auto intro!: grows_and_then grows_perform grows_forEach)
next
  case (Other name)
  then show ?case by (simp add: grows_return)
qed

lemma grows_copyFromFolder: "grows (copyFromFolder env from to regex items)"
  unfolding copyFromFolder_def
  by (auto intro!: grows_and_then grows_perform grows_forEach grows_copy_item)

lemma grows_if: "grows m \<Longrightarrow> grows n \<Longrightarrow> grows (if c then m else n)"
  by simp

lemma grows_case_option:
  "grows m \<Longrightarrow> (\<And>x. grows (n x)) \<Longrightarrow> grows (case v of None \<Rightarrow> m | Some x \<Rightarrow> n x)"
  by (cases v) simp_all

lemma grows_require:
  "grows (\<lambda>p. case r of
                 Inl e \<Rightarrow> (Inl e, p)
               | Inr (ConfigObject c) \<Rightarrow> (Inr c, p)
               | Inr (ConfigFunction f) \<Rightarrow> (f bt, p))"
  by (simp add: grows_def split: sum.splits config_module.splits)

lemma and_then_perform_first:
  assumes "\<And>x. grows (f x)"
  shows "take (Suc (length (actions p))) (actions (snd (and_then (perform env act) f p)))
    = actions p @ [act]"
proof (cases "outcome env (actions p) act")
  case None
  from assms [of "()"] have
    "\<exists>acts. actions (snd (f () (p\<lparr>actions := actions p @ [act]\<rparr>)))
       = actions (p\<lparr>actions := actions p @ [act]\<rparr>) @ acts"
    unfolding grows_def by blast
  then obtain acts where
    "actions (snd (f () (p\<lparr>actions := actions p @ [act]\<rparr>))) = (actions p @ [act]) @ acts"
    by auto
  with None show ?thesis by (simp add: and_then_def perform_def)
next
  case (Some e)
  then show ?thesis by (simp add: and_then_def perform_def)
qed

text \<open>
  With a valid build type the script does start: its first action is the cleaning of the
  output folder.
\<close>

lemma build_script_valid_first:
  assumes "buildType args = Some bt" and "bt \<in> set VALID_BUILD_TYPES"
  shows "take (Suc (length (actions p))) (actions (snd (build_script env args p)))
    = actions p @ [RimrafSync (resolved_outDir env args bt)]"
  using assms
  unfolding build_script_def Let_def
  apply (simp split del: if_split)
  apply (rule and_then_perform_first)
  apply (intro grows_and_then grows_perform grows_if grows_case_option grows_copyFromFolder
      grows_return grows_require allI)
  done


lemmas handler_defs =
  handleWebpackCompilationResults_def console_error_def console_warn_def console_log_def
  perform_def DEVELOPMENT_def Let_def

subsection \<open>Validation of the build type\<close>

text \<open>
  Claim C4. With a build type that is neither \<^verbatim>\<open>development\<close> nor \<^verbatim>\<open>production\<close>, an
  omitted one included, the script throws the error \<^verbatim>\<open>Invalid build type\<close> and the process
  is as it was: no folder was cleaned or made, no build step was started.
\<close>

theorem invalid_build_type:
  assumes "buildType args \<noteq> Some ''development''" and "buildType args \<noteq> Some ''production''"
  shows "build_script env args p = (Inl (Error ''Invalid build type''), p)"
  using assms
  by (simp add: build_script_def VALID_BUILD_TYPES_def DEVELOPMENT_def PRODUCTION_def
      split: option.splits)


text \<open>The sample run with no build type, and with the build type \<^verbatim>\<open>test\<close>.\<close>

theorem invalid_build_type_witness:
  "build_script sample_script_env (sample_args None) sample_process
     = (Inl (Error ''Invalid build type''), sample_process) \<and>
   build_script sample_script_env (sample_args (Some ''test'')) sample_process
     = (Inl (Error ''Invalid build type''), sample_process)"
  using invalid_build_type [of "sample_args None" sample_script_env sample_process]
    invalid_build_type [of "sample_args (Some ''test'')" sample_script_env sample_process]
  by (simp add: sample_args_def)


subsection \<open>Compilation failures and the exit code\<close>

text \<open>
  When the compilation failed (the error argument is truthy, or the stats report
  errors): with a build type other than \<^verbatim>\<open>development\<close> the handler sets the exit code to 1
  and returns without writing anything; with the build type \<^verbatim>\<open>development\<close> it leaves the
  exit code as it was, has logged the failure with \<^verbatim>\<open>console.error\<close>, and goes on with the
  stats: given stats, it logs them and writes the chunk groups; given none, it throws a
  TypeError.
\<close>

lemma compilation_failure_exit_code:
  assumes "truthy error \<or> (\<exists>st. stats = Some st \<and> hasErrors st)"
  shows
    "(let res = fst (handleWebpackCompilationResults env bt dir error stats p);
          p' = snd (handleWebpackCompilationResults env bt dir error stats p)
      in
        (bt \<noteq> Some ''development'' \<longrightarrow>
           res = Inr () \<and> exitCode p' = Some 1 \<and> actions p' = actions p) \<and>
        (bt = Some ''development'' \<longrightarrow>
           exitCode p' = exitCode p \<and>
           (\<exists>logged more. console p' = console p @ ConsoleError logged # more) \<and>
           (case stats of
              None \<Rightarrow> res = Inl (TypeError ''Cannot read properties of undefined'')
            | Some st \<Rightarrow>
                ConsoleLog [JStr (toString_colors st)] \<in> set (console p') \<and>
                actions p' = actions p @
                  [FsWriteFileSync (dir @ ''/__chunk_groups__.json'')
                     (JSON_stringify env (chunks_of (namedChunkGroups st)) 2)])))"
  using assms
  by (cases stats) (auto simp: handler_defs split: option.splits)


text \<open>The stats of the sample run report errors: exit code 1 in production, none in development.\<close>

lemma compilation_failure_exit_code_example:
  "exitCode (snd (handleWebpackCompilationResults sample_script_env (Some ''production'')
      ''/app/build/web-public'' JNull (Some (sample_stats True)) sample_process)) = Some 1 \<and>
   exitCode (snd (handleWebpackCompilationResults sample_script_env (Some ''development'')
      ''/app/build/web-public'' JNull (Some (sample_stats True)) sample_process)) = None"
  using compilation_failure_exit_code [of JNull "Some (sample_stats True)" sample_script_env
      "Some ''production''" "''/app/build/web-public''" sample_process]
    compilation_failure_exit_code [of JNull "Some (sample_stats True)" sample_script_env
      "Some ''development''" "''/app/build/web-public''" sample_process]
  by (simp add: Let_def sample_stats_def sample_process_def)


text \<open>
  Claim C3, where the code falls short of it. A fatal error comes to the handler without
  stats. With the build type \<^verbatim>\<open>development\<close> the handler logs the error and leaves the exit
  code alone, as the claim says, but it then goes on to \<^verbatim>\<open>stats.toJson()\<close> (line 123) on the
  undefined stats and throws a TypeError: the failure is not only logged. The handler is
  written after the error handling of the Webpack documentation (comment of lines 107
  and 108), which returns once the error is logged.
\<close>

theorem fatal_error_in_development:
  "handleWebpackCompilationResults sample_script_env (Some ''development'')
      ''/app/build/web-public'' sample_error None sample_process =
     (Inl (TypeError ''Cannot read properties of undefined''),
      \<lparr> exitCode = None,
        console = [ConsoleError [JStr ''Error: Invalid configuration object'']],
        actions = [] \<rparr>)"
  by (simp add: handler_defs sample_error_def sample_process_def)

subsection \<open>The chunk-group manifest\<close>

text \<open>
  Claim C7, as amended. When the handler is given stats and does not stop at a failure
  (nothing failed, or the build type is \<^verbatim>\<open>development\<close>), it makes exactly one outside
  call: the write of \<^verbatim>\<open>__chunk_groups__.json\<close> in the Webpack output folder, with the JSON
  text (indented by 2) of the object that maps the name of each named chunk group to the
  list of the names of its assets; the handler ends as that write does.
\<close>

theorem chunk_groups_written:
  assumes "(\<not> truthy error \<and> \<not> hasErrors st) \<or> bt = Some ''development''"
  shows
    "actions (snd (handleWebpackCompilationResults env bt dir error (Some st) p)) =
       actions p @
         [FsWriteFileSync (dir @ ''/__chunk_groups__.json'')
            (JSON_stringify env
               (JObj (map (\<lambda>(name, item).
                             (name, JArr (map (\<lambda>a. JStr (asset_name a)) (assets item))))
                        (namedChunkGroups st))) 2)] \<and>
     fst (handleWebpackCompilationResults env bt dir error (Some st) p) =
       (case outcome env (actions p)
               (FsWriteFileSync (dir @ ''/__chunk_groups__.json'')
                  (JSON_stringify env (chunks_of (namedChunkGroups st)) 2)) of
          None \<Rightarrow> Inr ()
        | Some e \<Rightarrow> Inl e)"
  using assms
  by (auto simp: handler_defs chunks_of_def split: option.splits)


text \<open>The sample production run without errors, in the output folder of the script.\<close>

theorem chunk_groups_written_witness:
  "actions (snd (handleWebpackCompilationResults sample_script_env (Some ''production'')
      (webpackOutDir sample_script_env (sample_args (Some ''production'')) ''production'')
      JNull (Some (sample_stats False)) sample_process)) =
     [FsWriteFileSync ''/app/build/web-public/__chunk_groups__.json''
        (sample_stringify (JObj [(''main'', JArr [JStr ''main.js'', JStr ''main.css''])]) 2)]"
  using chunk_groups_written [of JNull "sample_stats False" "Some ''production''"
      sample_script_env
      "webpackOutDir sample_script_env (sample_args (Some ''production'')) ''production''"
      sample_process]
  by (simp add: sample_stats_def sample_process_def webpackOutDir_def resolved_outDir_def
      sample_args_def sample_script_env_def)


text \<open>
  Claim C7 as stated fails for a failed production build: the handler sets the exit code
  and returns before the write, so that no file is written.
\<close>

theorem chunk_groups_not_written_counterexample:
  "handleWebpackCompilationResults sample_script_env (Some ''production'')
      ''/app/build/web-public'' JNull (Some (sample_stats True)) sample_process =
     (Inr (), \<lparr> exitCode = Some 1,
                console = [ConsoleError [JStr ''Error defailts:'', JArr [JStr ''Module not found'']]],
                actions = [] \<rparr>)"
  by (simp add: handler_defs sample_stats_def sample_process_def)


section \<open>Properties of the Modal component\<close>

lemmas modal_defs =
  mounted_def mount_portal_def BaseModal_def focusLast_def overlay_def container_def
  focusOverlay_def empty_div_def click_def keyDown_def overlay_onClick_def
  overlay_onKeyDown_def

text \<open>
  Claim C9. The first render, before the portal exists, shows nothing. Once mounted, the
  component renders exactly one element with the label \<^verbatim>\<open>Cancel\<close>, the overlay. A click
  on it, or a key down of \<^verbatim>\<open>Escape\<close>, calls \<^verbatim>\<open>onCancel\<close> and then stops the propagation of
  the event when \<^verbatim>\<open>onCancel\<close> is given, and does nothing when it is not; a key down of any
  other key does nothing.
\<close>

theorem modal_overlay:
  "BaseModal props None = None \<and>
   (case mounted props p body of
      None \<Rightarrow> False
    | Some (els, portal) \<Rightarrow>
        portal = p \<and>
        length (filter (\<lambda>el. aria_label el = Some ''Cancel'') els) = 1 \<and>
        (\<forall>el \<in> set els. aria_label el = Some ''Cancel'' \<longrightarrow>
           click el =
             (case onCancel props of
                Some cancel \<Rightarrow> [Invoke cancel, StopPropagation] | None \<Rightarrow> []) \<and>
           (\<forall>key. keyDown key el =
              (if key = ''Escape''
               then (case onCancel props of
                       Some cancel \<Rightarrow> [Invoke cancel, StopPropagation] | None \<Rightarrow> [])
               else []))))"
  by (simp add: modal_defs)


text \<open>The sample props, with the callback and without it.\<close>

theorem modal_overlay_witness:
  "aria_label (fst (the (mounted sample_props (0::nat) [])) ! 1) = Some ''Cancel'' \<and>
   click (fst (the (mounted sample_props (0::nat) [])) ! 1)
     = [Invoke ''onCancel'', StopPropagation] \<and>
   keyDown ''Escape'' (fst (the (mounted sample_props (0::nat) [])) ! 1)
     = [Invoke ''onCancel'', StopPropagation] \<and>
   keyDown ''Enter'' (fst (the (mounted sample_props (0::nat) [])) ! 1) = [] \<and>
   click (fst (the (mounted (sample_props \<lparr> onCancel := None \<rparr>) (0::nat) [])) ! 1) = []"
proof -
  obtain els where m: "mounted sample_props (0::nat) [] = Some (els, 0)"
    and el: "els ! 1 \<in> set els" "aria_label (els ! 1) = Some ''Cancel''"
    by (simp add: mounted_def mount_portal_def BaseModal_def overlay_def empty_div_def)
  obtain els' where m': "mounted (sample_props \<lparr> onCancel := None \<rparr>) (0::nat) [] = Some (els', 0)"
    and el': "els' ! 1 \<in> set els'" "aria_label (els' ! 1) = Some ''Cancel''"
    by (simp add: mounted_def mount_portal_def BaseModal_def overlay_def empty_div_def)
  from modal_overlay [of sample_props "0::nat" "[]", unfolded m] have
    "\<forall>el \<in> set els. aria_label el = Some ''Cancel'' \<longrightarrow>
       click el = (case onCancel sample_props of
                     Some cancel \<Rightarrow> [Invoke cancel, StopPropagation] | None \<Rightarrow> []) \<and>
       (\<forall>key. keyDown key el =
          (if key = ''Escape''
           then (case onCancel sample_props of
                   Some cancel \<Rightarrow> [Invoke cancel, StopPropagation] | None \<Rightarrow> [])
           else []))"
    by (simp only: option.case prod.case) blast
  with el have
    "click (els ! 1) = (case onCancel sample_props of
                     Some cancel \<Rightarrow> [Invoke cancel, StopPropagation] | None \<Rightarrow> [])"
    and "\<And>key. keyDown key (els ! 1) =
          (if key = ''Escape''
           then (case onCancel sample_props of
                   Some cancel \<Rightarrow> [Invoke cancel, StopPropagation] | None \<Rightarrow> [])
           else [])"
    by blast+
  then have 1:
    "click (els ! 1) = [Invoke ''onCancel'', StopPropagation] \<and>
     keyDown ''Escape'' (els ! 1) = [Invoke ''onCancel'', StopPropagation] \<and>
     keyDown ''Enter'' (els ! 1) = []"
    by (simp add: sample_props_def)
  from modal_overlay [of "sample_props \<lparr> onCancel := None \<rparr>" "0::nat" "[]", unfolded m'] have
    "\<forall>el \<in> set els'. aria_label el = Some ''Cancel'' \<longrightarrow>
       click el = (case onCancel (sample_props \<lparr> onCancel := None \<rparr>) of
                     Some cancel \<Rightarrow> [Invoke cancel, StopPropagation] | None \<Rightarrow> []) \<and>
       (\<forall>key. keyDown key el =
          (if key = ''Escape''
           then (case onCancel (sample_props \<lparr> onCancel := None \<rparr>) of
                   Some cancel \<Rightarrow> [Invoke cancel, StopPropagation] | None \<Rightarrow> [])
           else []))"
    by (simp only: option.case prod.case) blast
  with el' have
    "click (els' ! 1) = (case onCancel (sample_props \<lparr> onCancel := None \<rparr>) of
                     Some cancel \<Rightarrow> [Invoke cancel, StopPropagation] | None \<Rightarrow> [])"
    by blast
  then have 2: "click (els' ! 1) = []"
    by simp
  from 1 2 show ?thesis
    using m m' el el' by simp
qed


end
